theory Spec2Isabelle
  imports Main "HOL-Library.AList"
begin

section \<open>The operating system as seen by the control panel\<close>

text \<open>
  The control panel (\<^verbatim>\<open>MainWindow\<close> in \<^verbatim>\<open>claude_v3.py\<close> and \<^verbatim>\<open>claude_v4.py\<close>) starts and
  stops child processes with \<^verbatim>\<open>subprocess.Popen\<close>, \<^verbatim>\<open>os.killpg\<close>, \<^verbatim>\<open>Popen.terminate\<close>,
  \<^verbatim>\<open>Popen.kill\<close>, \<^verbatim>\<open>Popen.wait\<close> and \<^verbatim>\<open>Popen.poll\<close>. What these calls answer is decided by
  the operating system, not by the program, so every answer is a parameter of the model:
  a \<open>process\<close> carries, next to its pid, the answer each call on it gives, and a
  \<open>platform\<close> says which primitives the \<^verbatim>\<open>os\<close> module has and what each \<^verbatim>\<open>Popen\<close> call
  returns. The program's own control flow is translated as it is written; every call it
  makes is appended to a trace of events. The calls into the user interface
  (\<^verbatim>\<open>update_service_status\<close>, \<^verbatim>\<open>log_status\<close>) and \<^verbatim>\<open>print\<close> are recorded in the trace
  and taken not to raise.
\<close>

datatype signal = SIGINT | SIGTERM | SIGKILL

text \<open>The exceptions the modelled calls raise (all are subclasses of \<^verbatim>\<open>Exception\<close>).\<close>

datatype exn =
    ProcessLookupError   \<comment> \<open>the target process or group no longer exists\<close>
  | PermissionError      \<comment> \<open>the target exists and may not be signalled\<close>
  | FileNotFoundError
  | OSError
  | TimeoutExpired       \<comment> \<open>raised by \<^verbatim>\<open>wait(timeout=...)\<close>\<close>
  | NameError            \<comment> \<open>raised when a name that is bound nowhere is read\<close>

record process =
  pid :: nat
  poll :: bool
    \<comment> \<open>\<^verbatim>\<open>process.poll() is None\<close>: the process is still running\<close>
  getpgid :: "signal \<Rightarrow> exn + nat"
    \<comment> \<open>\<^verbatim>\<open>os.getpgid(process.pid)\<close>, evaluated for the \<^verbatim>\<open>os.killpg\<close> call that sends the
        given signal: the process group, or the exception raised (the group may have gone
        between the two calls)\<close>
  killpg :: "signal \<Rightarrow> exn option"
    \<comment> \<open>\<^verbatim>\<open>os.killpg(pgid, sig)\<close>: \<open>None\<close> when delivered, else the exception raised\<close>
  terminate :: "exn option"
    \<comment> \<open>\<^verbatim>\<open>process.terminate()\<close>\<close>
  kill :: "exn option"
    \<comment> \<open>\<^verbatim>\<open>process.kill()\<close>\<close>
  wait_timeout :: "nat \<Rightarrow> bool"
    \<comment> \<open>\<^verbatim>\<open>process.wait(timeout=t)\<close>: \<open>True\<close> when the process exits within \<open>t\<close> seconds,
        \<open>False\<close> when \<^verbatim>\<open>TimeoutExpired\<close> is raised\<close>
  wait :: bool
    \<comment> \<open>\<^verbatim>\<open>process.wait()\<close> without timeout: \<open>True\<close> when it returns, \<open>False\<close> when the
        process never exits and the call blocks for ever\<close>

record platform =
  has_setsid :: bool
    \<comment> \<open>\<^verbatim>\<open>hasattr(os, 'setsid')\<close>\<close>
  has_killpg :: bool
    \<comment> \<open>\<^verbatim>\<open>hasattr(os, 'killpg')\<close>\<close>
  popen :: "nat \<Rightarrow> string \<Rightarrow> exn + process"
    \<comment> \<open>the answer of the \<open>k\<close>-th call \<^verbatim>\<open>subprocess.Popen([sys.executable, name], ...)\<close>
        of the session: the new process, or the exception raised\<close>

text \<open>
  The trace. OS calls are recorded when they are made, whatever they answer. The
  messages of \<^verbatim>\<open>log_status\<close> and \<^verbatim>\<open>print\<close> are kept as constructors rather than as
  formatted text (the time stamp of \<^verbatim>\<open>log_status\<close> is left out).
\<close>

datatype event =
    Popen string bool
      \<comment> \<open>\<^verbatim>\<open>Popen([sys.executable, name], ...)\<close>; the flag says \<^verbatim>\<open>preexec_fn=os.setsid\<close>\<close>
  | Getpgid nat
  | Killpg nat signal
      \<comment> \<open>\<^verbatim>\<open>os.killpg(pgid, sig)\<close>: a signal to a whole process group\<close>
  | Terminate nat
      \<comment> \<open>\<^verbatim>\<open>process.terminate()\<close>: the graceful request to the one process \<open>pid\<close>\<close>
  | Kill nat
      \<comment> \<open>\<^verbatim>\<open>process.kill()\<close>: the forceful kill of the one process \<open>pid\<close>\<close>
  | Poll nat
  | WaitTimeout nat nat
      \<comment> \<open>\<^verbatim>\<open>process.wait(timeout=t)\<close> on \<open>pid\<close>\<close>
  | Wait nat
      \<comment> \<open>\<^verbatim>\<open>process.wait()\<close> on \<open>pid\<close>\<close>
  | UpdateServiceStatus string bool
  | LogAlreadyRunning string
      \<comment> \<open>\<^verbatim>\<open>"Service {name} is already running"\<close>\<close>
  | LogStarted string nat
      \<comment> \<open>\<^verbatim>\<open>"Started {name} (PID: {pid})"\<close>\<close>
  | LogFailedToStart string exn
      \<comment> \<open>\<^verbatim>\<open>"Failed to start {name}: {str(e)}"\<close>\<close>
  | LogNotRunning string
      \<comment> \<open>\<^verbatim>\<open>"Service {name} is not running"\<close>\<close>
  | LogStopped string
      \<comment> \<open>\<^verbatim>\<open>"Stopped {name}"\<close>\<close>
  | LogFailedToStop string exn
      \<comment> \<open>\<^verbatim>\<open>"Failed to stop {name}: {str(e)}"\<close>\<close>
  | PrintCleaningUp
      \<comment> \<open>\<^verbatim>\<open>"Cleaning up all processes..."\<close>\<close>
  | PrintTerminating string
  | PrintForceKilling string
  | PrintErrorStopping string exn
  | PrintAllCleanedUp

section \<open>The main window\<close>

text \<open>
  \<^verbatim>\<open>running_services\<close> is a Python \<^verbatim>\<open>dict\<close>: keys are unique and iteration follows
  insertion order, so it is an association list handled with \<open>map_of\<close>,
  \<open>AList.update\<close> (replace in place, or append a new key at the end) and
  \<open>AList.delete\<close>. \<open>services_list\<close> holds the service name stored in each item of the
  list widget. \<open>popen_count\<close> counts the \<^verbatim>\<open>Popen\<close> calls made so far; it indexes the
  platform's answers. \<^verbatim>\<open>claude_v3.py\<close> has no \<^verbatim>\<open>is_closing\<close>; its functions do not read
  the field.
\<close>

record main_window =
  config_data :: "string \<rightharpoonup> string"
  running_services :: "(string \<times> process) list"
  is_closing :: bool
  services_list :: "string list"
  popen_count :: nat
  events :: "event list"

definition emit :: "event list \<Rightarrow> main_window \<Rightarrow> main_window" where
  "emit es w = w\<lparr>events := events w @ es\<rparr>"

subsection \<open>\<^verbatim>\<open>start_service\<close>\<close>

text \<open>
  \<^verbatim>\<open>claude_v4.py\<close>, lines 476-497. The test \<^verbatim>\<open>service_name in self.running_services\<close>
  comes first; \<^verbatim>\<open>Popen\<close> is called inside \<^verbatim>\<open>try\<close>, and any exception it raises is
  logged. The entry is stored only after \<^verbatim>\<open>Popen\<close> has returned.
\<close>

definition start_service :: "platform \<Rightarrow> string \<Rightarrow> main_window \<Rightarrow> main_window" where
  "start_service pf service_name w =
     (case map_of (running_services w) service_name of
        Some _ \<Rightarrow> emit [LogAlreadyRunning service_name] w
      | None \<Rightarrow>
          (case popen pf (popen_count w) service_name of
             Inr proc \<Rightarrow>
               emit [Popen service_name (has_setsid pf),
                     UpdateServiceStatus service_name True,
                     LogStarted service_name (pid proc)]
                 (w\<lparr>popen_count := Suc (popen_count w),
                    running_services := AList.update service_name proc (running_services w)\<rparr>)
           | Inl e \<Rightarrow>
               emit [Popen service_name (has_setsid pf), LogFailedToStart service_name e]
                 (w\<lparr>popen_count := Suc (popen_count w)\<rparr>)))"

text \<open>
  \<^verbatim>\<open>claude_v3.py\<close>, lines 435-451: the same, with \<^verbatim>\<open>Popen([sys.executable, name])\<close>
  and no \<^verbatim>\<open>preexec_fn\<close>.
\<close>

definition start_service_v3 :: "platform \<Rightarrow> string \<Rightarrow> main_window \<Rightarrow> main_window" where
  "start_service_v3 pf service_name w =
     (case map_of (running_services w) service_name of
        Some _ \<Rightarrow> emit [LogAlreadyRunning service_name] w
      | None \<Rightarrow>
          (case popen pf (popen_count w) service_name of
             Inr proc \<Rightarrow>
               emit [Popen service_name False,
                     UpdateServiceStatus service_name True,
                     LogStarted service_name (pid proc)]
                 (w\<lparr>popen_count := Suc (popen_count w),
                    running_services := AList.update service_name proc (running_services w)\<rparr>)
           | Inl e \<Rightarrow>
               emit [Popen service_name False, LogFailedToStart service_name e]
                 (w\<lparr>popen_count := Suc (popen_count w)\<rparr>)))"

subsection \<open>\<^verbatim>\<open>stop_service\<close>\<close>

text \<open>
  The body of the \<^verbatim>\<open>try\<close> block either completes, raises an exception (caught by
  \<^verbatim>\<open>except Exception\<close>), or never returns because \<^verbatim>\<open>process.wait()\<close> blocks.
\<close>

datatype outcome = Completed | Raised exn | Blocked

text \<open>
  Lines 509-514 of \<^verbatim>\<open>claude_v4.py\<close>: \<^verbatim>\<open>os.killpg(os.getpgid(process.pid), signal.SIGTERM)\<close>
  where \<^verbatim>\<open>os\<close> has \<^verbatim>\<open>killpg\<close>, else \<^verbatim>\<open>process.terminate()\<close>. Lines 521-524: the same with
  \<^verbatim>\<open>SIGKILL\<close> and \<^verbatim>\<open>process.kill()\<close>. \<^verbatim>\<open>os.getpgid\<close> is evaluated first, each time; when
  it raises, \<^verbatim>\<open>os.killpg\<close> is not called. The result is the calls made and the exception
  raised, if any.
\<close>

definition signal_group :: "process \<Rightarrow> signal \<Rightarrow> event list \<times> exn option" where
  "signal_group p sg =
     (case getpgid p sg of
        Inl e \<Rightarrow> ([Getpgid (pid p)], Some e)
      | Inr g \<Rightarrow> ([Getpgid (pid p), Killpg g sg], killpg p sg))"

definition graceful_signal :: "platform \<Rightarrow> process \<Rightarrow> event list \<times> exn option" where
  "graceful_signal pf p =
     (if has_killpg pf then signal_group p SIGTERM
      else ([Terminate (pid p)], terminate p))"

definition forceful_signal :: "platform \<Rightarrow> process \<Rightarrow> event list \<times> exn option" where
  "forceful_signal pf p =
     (if has_killpg pf then signal_group p SIGKILL
      else ([Kill (pid p)], kill p))"

text \<open>Lines 506-525: the two phases, up to the \<^verbatim>\<open>del\<close>.\<close>

definition stop_phases :: "platform \<Rightarrow> process \<Rightarrow> event list \<times> outcome" where
  "stop_phases pf p =
     (case graceful_signal pf p of
        (es1, Some e) \<Rightarrow> (es1, Raised e)
      | (es1, None) \<Rightarrow>
          if wait_timeout p 5 then (es1 @ [WaitTimeout (pid p) 5], Completed)
          else
            (case forceful_signal pf p of
               (es2, Some e) \<Rightarrow> (es1 @ [WaitTimeout (pid p) 5] @ es2, Raised e)
             | (es2, None) \<Rightarrow>
                 (es1 @ [WaitTimeout (pid p) 5] @ es2 @ [Wait (pid p)],
                  if wait p then Completed else Blocked)))"

text \<open>
  \<^verbatim>\<open>claude_v4.py\<close>, lines 499-537. \<open>None\<close> is the call that never returns. After the two
  phases the entry is deleted, the list item updated and \<^verbatim>\<open>"Stopped ..."\<close> logged; the
  handler logs \<^verbatim>\<open>"Failed to stop ..."\<close> and deletes the entry if it is still there
  (``Remove from tracking even if stop failed'').
\<close>

definition stop_service :: "platform \<Rightarrow> string \<Rightarrow> main_window \<Rightarrow> main_window option" where
  "stop_service pf service_name w =
     (case map_of (running_services w) service_name of
        None \<Rightarrow> Some (emit [LogNotRunning service_name] w)
      | Some p \<Rightarrow>
          (case stop_phases pf p of
             (es, Completed) \<Rightarrow>
               Some (emit (es @ [UpdateServiceStatus service_name False, LogStopped service_name])
                      (w\<lparr>running_services := AList.delete service_name (running_services w)\<rparr>))
           | (es, Raised e) \<Rightarrow>
               Some (emit (es @ [LogFailedToStop service_name e])
                      (w\<lparr>running_services := AList.delete service_name (running_services w)\<rparr>))
           | (es, Blocked) \<Rightarrow> None))"

text \<open>
  \<^verbatim>\<open>claude_v3.py\<close>, lines 453-470: \<^verbatim>\<open>process.terminate()\<close>, \<^verbatim>\<open>process.wait(timeout=5)\<close>,
  \<^verbatim>\<open>del\<close>, all inside one \<^verbatim>\<open>try\<close>; the handler only logs. There is no wait without
  timeout, so the call always returns.
\<close>

definition stop_service_v3 :: "string \<Rightarrow> main_window \<Rightarrow> main_window" where
  "stop_service_v3 service_name w =
     (case map_of (running_services w) service_name of
        None \<Rightarrow> emit [LogNotRunning service_name] w
      | Some p \<Rightarrow>
          (case terminate p of
             Some e \<Rightarrow> emit [Terminate (pid p), LogFailedToStop service_name e] w
           | None \<Rightarrow>
               if wait_timeout p 5 then
                 emit [Terminate (pid p), WaitTimeout (pid p) 5,
                       UpdateServiceStatus service_name False, LogStopped service_name]
                   (w\<lparr>running_services := AList.delete service_name (running_services w)\<rparr>)
               else
                 emit [Terminate (pid p), WaitTimeout (pid p) 5,
                       LogFailedToStop service_name TimeoutExpired] w))"

subsection \<open>\<^verbatim>\<open>stop_all_services\<close> and \<^verbatim>\<open>start_all_services\<close>\<close>

text \<open>
  \<^verbatim>\<open>claude_v4.py\<close>, lines 569-576: nothing happens once \<^verbatim>\<open>is_closing\<close> is set; otherwise
  \<^verbatim>\<open>stop_service\<close> is called for each key of a copy of the dictionary's key list. The
  flag is read, never written.
\<close>

fun stop_each :: "platform \<Rightarrow> string list \<Rightarrow> main_window \<Rightarrow> main_window option" where
  "stop_each pf [] w = Some w"
| "stop_each pf (service_name # service_names) w =
     (case stop_service pf service_name w of
        None \<Rightarrow> None
      | Some w' \<Rightarrow> stop_each pf service_names w')"

definition stop_all_services :: "platform \<Rightarrow> main_window \<Rightarrow> main_window option" where
  "stop_all_services pf w =
     (if is_closing w then Some w
      else stop_each pf (map fst (running_services w)) w)"

text \<open>Lines 562-567: \<^verbatim>\<open>start_service\<close> for every item of the list widget, in order.\<close>

definition start_all_services :: "platform \<Rightarrow> main_window \<Rightarrow> main_window" where
  "start_all_services pf w = fold (start_service pf) (services_list w) w"

subsection \<open>\<^verbatim>\<open>cleanup_all_processes\<close> and \<^verbatim>\<open>closeEvent\<close>\<close>

text \<open>
  The body of the loop of \<^verbatim>\<open>cleanup_all_processes\<close> (lines 271-282) for one item: the
  calls made, and whether the body returns (\<open>False\<close>: \<^verbatim>\<open>process.wait()\<close> blocks for
  ever). The signals here are \<^verbatim>\<open>process.terminate()\<close> and \<^verbatim>\<open>process.kill()\<close>, sent to
  the one process; an exception is printed and the loop goes on.
\<close>

definition cleanup_one :: "string \<times> process \<Rightarrow> event list \<times> bool" where
  "cleanup_one item =
     (case item of (service_name, p) \<Rightarrow>
        if poll p then
          (case terminate p of
             Some e \<Rightarrow>
               ([Poll (pid p), PrintTerminating service_name, Terminate (pid p),
                 PrintErrorStopping service_name e], True)
           | None \<Rightarrow>
               if wait_timeout p 3 then
                 ([Poll (pid p), PrintTerminating service_name, Terminate (pid p),
                   WaitTimeout (pid p) 3], True)
               else
                 (case kill p of
                    Some e \<Rightarrow>
                      ([Poll (pid p), PrintTerminating service_name, Terminate (pid p),
                        WaitTimeout (pid p) 3, PrintForceKilling service_name, Kill (pid p),
                        PrintErrorStopping service_name e], True)
                  | None \<Rightarrow>
                      ([Poll (pid p), PrintTerminating service_name, Terminate (pid p),
                        WaitTimeout (pid p) 3, PrintForceKilling service_name, Kill (pid p),
                        Wait (pid p)], wait p)))
        else ([Poll (pid p)], True))"

fun cleanup_loop :: "(string \<times> process) list \<Rightarrow> event list \<Rightarrow> event list option" where
  "cleanup_loop [] es = Some es"
| "cleanup_loop (item # items) es =
     (case cleanup_one item of
        (es1, True) \<Rightarrow> cleanup_loop items (es @ es1)
      | (es1, False) \<Rightarrow> None)"

text \<open>
  Lines 262-285. The guard on \<^verbatim>\<open>is_closing\<close> comes first; the flag is set before the
  loop, and the dictionary is cleared after it.
\<close>

definition cleanup_all_processes :: "main_window \<Rightarrow> main_window option" where
  "cleanup_all_processes w =
     (if is_closing w then Some w
      else
        (case cleanup_loop (running_services w) (events w @ [PrintCleaningUp]) of
           None \<Rightarrow> None
         | Some es \<Rightarrow>
             Some (w\<lparr>is_closing := True, running_services := [],
                     events := es @ [PrintAllCleanedUp]\<rparr>)))"

text \<open>Lines 599-603.\<close>

definition closeEvent :: "main_window \<Rightarrow> main_window option" where
  "closeEvent w = (if \<not> is_closing w then cleanup_all_processes w else Some w)"

subsection \<open>Reading the configuration\<close>

text \<open>
  \<^verbatim>\<open>config.get(key, '').split(',')\<close> followed by
  \<^verbatim>\<open>[ms.strip() for ms in ... if ms.strip()]\<close> (lines 460-461 and 470-471). A \<open>char\<close> stands
  for a code point below 256; \<open>isspace\<close> lists the ones \<^verbatim>\<open>str.strip()\<close> removes.
\<close>

fun split_on :: "char \<Rightarrow> string \<Rightarrow> string list" where
  "split_on c [] = [[]]"
| "split_on c (x # xs) =
     (if x = c then [] # split_on c xs
      else (case split_on c xs of
              [] \<Rightarrow> [[x]]
            | y # ys \<Rightarrow> (x # y) # ys))"

definition isspace :: "char \<Rightarrow> bool" where
  "isspace c =
     (let n = (of_char c :: nat)
      in (9 \<le> n \<and> n \<le> 13) \<or> (28 \<le> n \<and> n \<le> 32) \<or> n = 133 \<or> n = 160)"

definition strip :: "string \<Rightarrow> string" where
  "strip s = rev (dropWhile isspace (rev (dropWhile isspace s)))"

definition config_get :: "main_window \<Rightarrow> string \<Rightarrow> string" where
  "config_get w key = (case config_data w key of None \<Rightarrow> [] | Some v \<Rightarrow> v)"

definition name_list :: "string \<Rightarrow> string list" where
  "name_list s = filter (\<lambda>ms. ms \<noteq> []) (map strip (split_on CHR '','' s))"

text \<open>Lines 458-466: one list item per configured microservice.\<close>

definition load_microservices :: "main_window \<Rightarrow> main_window" where
  "load_microservices w =
     w\<lparr>services_list := services_list w @ name_list (config_get w ''microservices'')\<rparr>"

text \<open>
  Lines 468-474: \<^verbatim>\<open>start_service\<close> for every entry of the \<^verbatim>\<open>auto_start\<close> list, in order.
  The list of microservices is not consulted.
\<close>

definition auto_start_services :: "platform \<Rightarrow> main_window \<Rightarrow> main_window" where
  "auto_start_services pf w = fold (start_service pf) (name_list (config_get w ''auto_start'')) w"

text \<open>
  \<^verbatim>\<open>MainWindow.__init__\<close> (lines 248-260): an empty dictionary, the flag cleared, then
  \<^verbatim>\<open>setup_ui\<close>, which ends with \<^verbatim>\<open>auto_start_services\<close>, then \<^verbatim>\<open>load_microservices\<close>.
\<close>

definition MainWindow_init :: "platform \<Rightarrow> (string \<rightharpoonup> string) \<Rightarrow> main_window" where
  "MainWindow_init pf config =
     load_microservices
       (auto_start_services pf
          \<lparr>config_data = config, running_services = [], is_closing = False,
           services_list = [], popen_count = 0, events = []\<rparr>)"

subsection \<open>The slots of the buttons\<close>

text \<open>
  Lines 365-375 connect the \<^verbatim>\<open>clicked\<close> signal of the four buttons to
  \<^verbatim>\<open>start_selected_service\<close>, \<^verbatim>\<open>stop_selected_service\<close>, \<^verbatim>\<open>start_all_services\<close> and
  \<^verbatim>\<open>stop_all_services\<close>; the toolkit calls the slot when the button is clicked, from the
  loop that also serves every other event of the window. The first two (lines 548-560) read
  the selected item of the list, \<open>None\<close> when there is none, and call the operation; the
  slot returns when the operation has returned. No thread or task is created in any of
  them.
\<close>

definition start_selected_service ::
    "platform \<Rightarrow> string option \<Rightarrow> main_window \<Rightarrow> main_window" where
  "start_selected_service pf current_item w =
     (case current_item of
        None \<Rightarrow> w
      | Some service_name \<Rightarrow> start_service pf service_name w)"

definition stop_selected_service ::
    "platform \<Rightarrow> string option \<Rightarrow> main_window \<Rightarrow> main_window option" where
  "stop_selected_service pf current_item w =
     (case current_item of
        None \<Rightarrow> Some w
      | Some service_name \<Rightarrow> stop_service pf service_name w)"

subsection \<open>A session: the operations in the order the triggers fire\<close>

datatype op =
    StartService string   \<comment> \<open>\<^verbatim>\<open>start_selected_service\<close> on that item\<close>
  | StopService string    \<comment> \<open>\<^verbatim>\<open>stop_selected_service\<close> on that item\<close>
  | StartAll
  | StopAll               \<comment> \<open>the stop-all button: \<^verbatim>\<open>stop_all_services\<close>\<close>
  | CleanupAll            \<comment> \<open>the exit hook or the signal handler: \<^verbatim>\<open>cleanup_all_processes\<close>\<close>
  | CloseEvent            \<comment> \<open>the window is closed\<close>

fun do_op :: "platform \<Rightarrow> op \<Rightarrow> main_window \<Rightarrow> main_window option" where
  "do_op pf (StartService n) w = Some (start_service pf n w)"
| "do_op pf (StopService n) w = stop_service pf n w"
| "do_op pf StartAll w = Some (start_all_services pf w)"
| "do_op pf StopAll w = stop_all_services pf w"
| "do_op pf CleanupAll w = cleanup_all_processes w"
| "do_op pf CloseEvent w = closeEvent w"

fun run :: "platform \<Rightarrow> op list \<Rightarrow> main_window \<Rightarrow> main_window option" where
  "run pf [] w = Some w"
| "run pf (x # xs) w =
     (case do_op pf x w of
        None \<Rightarrow> None
      | Some w' \<Rightarrow> run pf xs w')"

subsection \<open>Signals received by the control panel itself\<close>

text \<open>
  \<^verbatim>\<open>main\<close> (lines 861-869) calls \<^verbatim>\<open>signal.signal\<close> three times; each call replaces the
  handler of one signal. Before \<^verbatim>\<open>main\<close> runs, Python has its
  \<^verbatim>\<open>default_int_handler\<close> on \<^verbatim>\<open>SIGINT\<close> and the system default on the others.
\<close>

datatype handler = SIG_DFL | default_int_handler | signal_handler_fn

definition python_handlers :: "signal \<Rightarrow> handler" where
  "python_handlers = (\<lambda>_. SIG_DFL)(SIGINT := default_int_handler)"

definition main_signals :: "(signal \<Rightarrow> handler) \<Rightarrow> (signal \<Rightarrow> handler)" where
  "main_signals h =
     (let h1 = h(SIGINT := signal_handler_fn);
          h2 = h1(SIGTERM := signal_handler_fn);
          h3 = h2(SIGINT := SIG_DFL)
      in h3)"

text \<open>
  The rest of the start of \<^verbatim>\<open>main\<close> (lines 871-877) constructs the application object and
  the splash screen. \<^verbatim>\<open>SplashScreen.__init__\<close> constructs a \<^verbatim>\<open>ConfigLoader\<close> (line 624),
  and \<^verbatim>\<open>ConfigLoader.__init__\<close> reads the name \<^verbatim>\<open>Falsef\<close> (line 26), which is bound nowhere:
  the constructor raises, nothing in between catches it, and \<^verbatim>\<open>main\<close> ends there.
  \<^verbatim>\<open>MainWindow\<close> is constructed only in \<^verbatim>\<open>on_loading_finished\<close> (line 802), which is
  never reached.
\<close>

definition ConfigLoader_init :: "exn option" where
  "ConfigLoader_init = Some NameError"

definition SplashScreen_init :: "exn option" where
  "SplashScreen_init = ConfigLoader_init"

text \<open>
  Lines 861-877: the handlers in force from line 869 on, and the exception that ends
  \<^verbatim>\<open>main\<close>, if any.
\<close>

definition main_startup :: "(signal \<Rightarrow> handler) \<Rightarrow> (signal \<Rightarrow> handler) \<times> exn option" where
  "main_startup h = (main_signals h, SplashScreen_init)"

text \<open>
  A signal arrives. With \<^verbatim>\<open>SIG_DFL\<close> the operating system ends the process at once: no
  Python code runs, neither a handler nor an exit hook. A handler written in Python is
  only marked to run; the interpreter calls it when it next executes bytecode in the main
  thread. When that is lies outside this model.
\<close>

datatype delivery = Killed | Pending handler

definition deliver :: "(signal \<Rightarrow> handler) \<Rightarrow> signal \<Rightarrow> delivery" where
  "deliver h sg =
     (case h sg of
        SIG_DFL \<Rightarrow> Killed
      | default_int_handler \<Rightarrow> Pending default_int_handler
      | signal_handler_fn \<Rightarrow> Pending signal_handler_fn)"

section \<open>Reading the trace\<close>

text \<open>
  A graceful request is \<^verbatim>\<open>SIGTERM\<close> to a group or \<^verbatim>\<open>terminate()\<close>; a forceful kill is
  \<^verbatim>\<open>SIGKILL\<close> to a group or \<^verbatim>\<open>kill()\<close>.
\<close>

fun is_graceful :: "event \<Rightarrow> bool" where
  "is_graceful (Killpg g SIGTERM) = True"
| "is_graceful (Terminate q) = True"
| "is_graceful _ = False"

fun is_forceful :: "event \<Rightarrow> bool" where
  "is_forceful (Killpg g SIGKILL) = True"
| "is_forceful (Kill q) = True"
| "is_forceful _ = False"

fun is_wait :: "event \<Rightarrow> bool" where
  "is_wait (WaitTimeout q t) = True"
| "is_wait (Wait q) = True"
| "is_wait _ = False"

definition is_signal :: "event \<Rightarrow> bool" where
  "is_signal e = (is_graceful e \<or> is_forceful e)"

text \<open>
  Every call of \<^verbatim>\<open>start_service\<close> logs exactly one of ``already running'',
  ``Started'' and ``Failed to start''; \<open>start_reports\<close> lists the names so reported.
\<close>

fun start_report :: "event \<Rightarrow> string list" where
  "start_report (LogAlreadyRunning n) = [n]"
| "start_report (LogStarted n q) = [n]"
| "start_report (LogFailedToStart n e) = [n]"
| "start_report _ = []"

definition start_reports :: "event list \<Rightarrow> string list" where
  "start_reports es = concat (map start_report es)"

text \<open>
  \<^verbatim>\<open>cleanup_all_processes\<close> prints ``Cleaning up all processes...'' once, just before
  it goes through the registry; \<open>sweeps\<close> counts these sweeps in a trace.
\<close>

definition sweeps :: "event list \<Rightarrow> nat" where
  "sweeps es = count_list es PrintCleaningUp"

text \<open>No sweep before the flag is set, one at most after.\<close>

definition swept_once :: "main_window \<Rightarrow> bool" where
  "swept_once w = (sweeps (events w) \<le> (if is_closing w then 1 else 0))"

section \<open>Sample processes and platforms\<close>

text \<open>A process that exits as soon as it is asked to.\<close>

definition responsive :: "nat \<Rightarrow> process" where
  "responsive n =
     \<lparr>pid = n, poll = True, getpgid = (\<lambda>_. Inr n), killpg = (\<lambda>_. None), terminate = None,
      kill = None, wait_timeout = (\<lambda>_. True), wait = True\<rparr>"

text \<open>A process that ignores the graceful request and dies when killed.\<close>

definition stubborn :: "nat \<Rightarrow> process" where
  "stubborn n =
     \<lparr>pid = n, poll = True, getpgid = (\<lambda>_. Inr n), killpg = (\<lambda>_. None), terminate = None,
      kill = None, wait_timeout = (\<lambda>_. False), wait = True\<rparr>"

text \<open>A process that is alive and may not be signalled at all.\<close>

definition unkillable :: "nat \<Rightarrow> process" where
  "unkillable n =
     \<lparr>pid = n, poll = True, getpgid = (\<lambda>_. Inr n), killpg = (\<lambda>_. Some PermissionError),
      terminate = Some PermissionError, kill = Some PermissionError,
      wait_timeout = (\<lambda>_. False), wait = False\<rparr>"

text \<open>A process that has already gone when the signal is sent.\<close>

definition gone :: "nat \<Rightarrow> process" where
  "gone n =
     \<lparr>pid = n, poll = False, getpgid = (\<lambda>_. Inl ProcessLookupError),
      killpg = (\<lambda>_. Some ProcessLookupError), terminate = None, kill = None,
      wait_timeout = (\<lambda>_. True), wait = True\<rparr>"

text \<open>A platform with \<^verbatim>\<open>os.setsid\<close> and \<^verbatim>\<open>os.killpg\<close>, and one without.\<close>

definition posix :: "(nat \<Rightarrow> string \<Rightarrow> exn + process) \<Rightarrow> platform" where
  "posix f = \<lparr>has_setsid = True, has_killpg = True, popen = f\<rparr>"

definition no_groups :: "(nat \<Rightarrow> string \<Rightarrow> exn + process) \<Rightarrow> platform" where
  "no_groups f = \<lparr>has_setsid = False, has_killpg = False, popen = f\<rparr>"

text \<open>Every spawn succeeds; the \<open>k\<close>-th child has pid \<open>4001 + k\<close>.\<close>

definition spawn_responsive :: "nat \<Rightarrow> string \<Rightarrow> exn + process" where
  "spawn_responsive k n = Inr (responsive (4001 + k))"

definition spawn_stubborn :: "nat \<Rightarrow> string \<Rightarrow> exn + process" where
  "spawn_stubborn k n = Inr (stubborn (4001 + k))"

text \<open>No spawn succeeds: the interpreter cannot be executed.\<close>

definition spawn_fails :: "nat \<Rightarrow> string \<Rightarrow> exn + process" where
  "spawn_fails k n = Inl FileNotFoundError"

text \<open>A window with the given configuration and registry, and nothing else.\<close>

definition window :: "(string \<rightharpoonup> string) \<Rightarrow> (string \<times> process) list \<Rightarrow> main_window" where
  "window config rs =
     \<lparr>config_data = config, running_services = rs, is_closing = False,
      services_list = [], popen_count = 0, events = []\<rparr>"

text \<open>A window on which shutdown has begun.\<close>

definition closing_window :: main_window where
  "closing_window = (window Map.empty [])\<lparr>is_closing := True\<rparr>"

text \<open>The window after the cleanup of one service that had to be killed.\<close>

definition swept_window :: main_window where
  "swept_window =
     \<lparr>config_data = Map.empty, running_services = [], is_closing = True,
      services_list = [], popen_count = 0,
      events = [PrintCleaningUp, Poll 4001, PrintTerminating ''auth_service.py'',
                Terminate 4001, WaitTimeout 4001 3, PrintForceKilling ''auth_service.py'',
                Kill 4001, Wait 4001, PrintAllCleanedUp]\<rparr>"

text \<open>
  A configuration whose \<^verbatim>\<open>auto_start\<close> list names a file that is not among the
  \<^verbatim>\<open>microservices\<close>.
\<close>

definition sample_config :: "string \<rightharpoonup> string" where
  "sample_config =
     [''microservices'' \<mapsto> ''auth_service.py,data_service.py,api_service.py'',
      ''auto_start'' \<mapsto> ''auth_service.py, cache_service.py'']"

section \<open>Starting a service\<close>

lemma map_of_delete_self: "map_of (AList.delete k xs) k = None"
  by (simp add: AList.delete_conv)

text \<open>
  C6. For a name that is in the registry, \<^verbatim>\<open>start_service\<close> (in both versions) only
  logs ``already running'': no \<^verbatim>\<open>Popen\<close> call is made, and the registry, with the
  process the name maps to, is what it was.
\<close>

theorem start_service_already_running:
  assumes "map_of (running_services w) name = Some p"
  shows "start_service pf name w = w\<lparr>events := events w @ [LogAlreadyRunning name]\<rparr>
       \<and> start_service_v3 pf name w = w\<lparr>events := events w @ [LogAlreadyRunning name]\<rparr>
       \<and> map_of (running_services (start_service pf name w)) name = Some p
       \<and> map_of (running_services (start_service_v3 pf name w)) name = Some p"
  using assms by (simp add: start_service_def start_service_v3_def emit_def)

theorem start_service_already_running_witness:
  "map_of (running_services (window Map.empty [(''auth_service.py'', responsive 4001)]))
       ''auth_service.py'' = Some (responsive 4001)
   \<and> running_services
        (start_service (posix spawn_responsive) ''auth_service.py''
           (window Map.empty [(''auth_service.py'', responsive 4001)]))
       = [(''auth_service.py'', responsive 4001)]
   \<and> events
        (start_service (posix spawn_responsive) ''auth_service.py''
           (window Map.empty [(''auth_service.py'', responsive 4001)]))
       = [LogAlreadyRunning ''auth_service.py'']"
proof -
  have reg: "map_of (running_services (window Map.empty [(''auth_service.py'', responsive 4001)]))
               ''auth_service.py'' = Some (responsive 4001)"
    by (simp add: window_def)
  show ?thesis
    using reg start_service_already_running [OF reg, of "posix spawn_responsive"]
    by (simp add: window_def)
qed

text \<open>
  C5. When the name is not registered and \<^verbatim>\<open>Popen\<close> raises, \<^verbatim>\<open>start_service\<close> makes
  that one \<^verbatim>\<open>Popen\<close> call and no other, logs ``Failed to start'' with the exception,
  and leaves the registry as it was: no entry is created.
\<close>

theorem start_service_spawn_failure:
  assumes "map_of (running_services w) name = None"
    and "popen pf (popen_count w) name = Inl e"
  shows "running_services (start_service pf name w) = running_services w
       \<and> is_closing (start_service pf name w) = is_closing w
       \<and> events (start_service pf name w) =
           events w @ [Popen name (has_setsid pf), LogFailedToStart name e]
       \<and> popen_count (start_service pf name w) = Suc (popen_count w)"
  using assms by (simp add: start_service_def emit_def)

theorem start_service_spawn_failure_witness:
  "map_of (running_services (window Map.empty [])) ''auth_service.py'' = None
   \<and> popen (posix spawn_fails) (popen_count (window Map.empty [])) ''auth_service.py''
       = Inl FileNotFoundError
   \<and> running_services (start_service (posix spawn_fails) ''auth_service.py'' (window Map.empty []))
       = []
   \<and> events (start_service (posix spawn_fails) ''auth_service.py'' (window Map.empty []))
       = [Popen ''auth_service.py'' True, LogFailedToStart ''auth_service.py'' FileNotFoundError]"
proof -
  have absent: "map_of (running_services (window Map.empty [])) ''auth_service.py'' = None"
    by (simp add: window_def)
  have fails: "popen (posix spawn_fails) (popen_count (window Map.empty [])) ''auth_service.py''
                 = Inl FileNotFoundError"
    by (simp add: posix_def spawn_fails_def)
  show ?thesis
    using absent fails start_service_spawn_failure [OF absent fails]
    by (simp add: window_def posix_def)
qed

section \<open>Stopping a service\<close>

lemma graceful_signal_events:
  "fst (graceful_signal pf p) =
     (if has_killpg pf then
        (case getpgid p SIGTERM of
           Inl e \<Rightarrow> [Getpgid (pid p)]
         | Inr g \<Rightarrow> [Getpgid (pid p), Killpg g SIGTERM])
      else [Terminate (pid p)])"
  by (simp add: graceful_signal_def signal_group_def split: sum.split)

lemma forceful_signal_events:
  "fst (forceful_signal pf p) =
     (if has_killpg pf then
        (case getpgid p SIGKILL of
           Inl e \<Rightarrow> [Getpgid (pid p)]
         | Inr g \<Rightarrow> [Getpgid (pid p), Killpg g SIGKILL])
      else [Kill (pid p)])"
  by (simp add: forceful_signal_def signal_group_def split: sum.split)

lemma graceful_delivered_getpgid:
  "snd (graceful_signal pf p) = None \<Longrightarrow> has_killpg pf \<Longrightarrow> \<exists>g. getpgid p SIGTERM = Inr g"
  by (auto simp: graceful_signal_def signal_group_def split: sum.splits)

lemma forceful_delivered_getpgid:
  "snd (forceful_signal pf p) = None \<Longrightarrow> has_killpg pf \<Longrightarrow> \<exists>g. getpgid p SIGKILL = Inr g"
  by (auto simp: forceful_signal_def signal_group_def split: sum.splits)

lemma stop_phases_cases:
  "stop_phases pf p =
     (case snd (graceful_signal pf p) of
        Some e \<Rightarrow> (fst (graceful_signal pf p), Raised e)
      | None \<Rightarrow>
          if wait_timeout p 5
          then (fst (graceful_signal pf p) @ [WaitTimeout (pid p) 5], Completed)
          else
            (case snd (forceful_signal pf p) of
               Some e \<Rightarrow>
                 (fst (graceful_signal pf p) @ [WaitTimeout (pid p) 5]
                    @ fst (forceful_signal pf p),
                  Raised e)
             | None \<Rightarrow>
                 (fst (graceful_signal pf p) @ [WaitTimeout (pid p) 5]
                    @ fst (forceful_signal pf p) @ [Wait (pid p)],
                  if wait p then Completed else Blocked)))"
  by (cases "graceful_signal pf p"; cases "forceful_signal pf p")
     (simp add: stop_phases_def split: option.split)

lemma stop_service_returns:
  assumes "map_of (running_services w) name = Some p"
  shows "stop_service pf name w = None \<longleftrightarrow> snd (stop_phases pf p) = Blocked"
  using assms by (simp add: stop_service_def split: prod.split outcome.split)

lemma stop_service_result:
  assumes "map_of (running_services w) name = Some p"
    and "stop_service pf name w = Some w'"
  shows "running_services w' = AList.delete name (running_services w)
       \<and> (\<exists>logs. events w' = events w @ fst (stop_phases pf p) @ logs
             \<and> (\<forall>e\<in>set logs. \<not> is_signal e \<and> \<not> is_wait e))"
  using assms
  by (auto simp: stop_service_def emit_def is_signal_def split: prod.splits outcome.splits)

lemma graceful_request_first:
  "list_all (\<lambda>e. \<not> is_forceful e \<and> \<not> is_wait e)
     (takeWhile (\<lambda>e. \<not> is_graceful e) (fst (stop_phases pf p)))"
proof (cases "snd (graceful_signal pf p)")
  case (Some e)
  then show ?thesis
    by (auto simp: stop_phases_cases graceful_signal_events split: sum.split)
next
  case None
  then show ?thesis
    by (auto simp: stop_phases_cases graceful_signal_events forceful_signal_events
             dest: graceful_delivered_getpgid split: option.split sum.split)
qed

lemma delivered_then_bounded_wait:
  assumes "snd (graceful_signal pf p) = None"
  shows "\<exists>post. fst (stop_phases pf p) = fst (graceful_signal pf p) @ [WaitTimeout (pid p) 5] @ post"
    and "\<exists>e\<in>set (fst (graceful_signal pf p)). is_graceful e"
  using assms
  by (auto simp: stop_phases_cases graceful_signal_events
           dest: graceful_delivered_getpgid split: option.split)

lemma exit_in_window_no_kill:
  "wait_timeout p 5 \<Longrightarrow> filter is_forceful (fst (stop_phases pf p)) = []"
  by (auto simp: stop_phases_cases graceful_signal_events split: option.split sum.split)

lemma at_most_one_kill: "length (filter is_forceful (fst (stop_phases pf p))) \<le> 1"
  by (auto simp: stop_phases_cases graceful_signal_events forceful_signal_events
           split: option.split sum.split)

lemma timeout_one_kill:
  assumes "snd (graceful_signal pf p) = None" and "\<not> wait_timeout p 5"
    and "has_killpg pf \<longrightarrow> (\<exists>g. getpgid p SIGKILL = Inr g)"
  shows "length (filter is_forceful (fst (stop_phases pf p))) = 1"
  using assms
  by (auto simp: stop_phases_cases graceful_signal_events forceful_signal_events
           dest: graceful_delivered_getpgid split: option.split)

lemma kill_then_unbounded_wait:
  assumes "snd (graceful_signal pf p) = None" and "\<not> wait_timeout p 5"
    and "snd (forceful_signal pf p) = None"
  shows "\<exists>pre f. fst (stop_phases pf p) = pre @ [f, Wait (pid p)] \<and> is_forceful f"
  using assms
  by (auto simp: stop_phases_cases graceful_signal_events forceful_signal_events
           dest: graceful_delivered_getpgid forceful_delivered_getpgid split: option.split)

lemma stop_phases_blocked:
  "snd (stop_phases pf p) = Blocked \<longleftrightarrow>
     snd (graceful_signal pf p) = None \<and> \<not> wait_timeout p 5
       \<and> snd (forceful_signal pf p) = None \<and> \<not> wait p"
  by (auto simp: stop_phases_cases split: option.split)

lemma stop_service_absent:
  "stop_service pf name w = Some w' \<Longrightarrow> map_of (running_services w') name = None"
  by (auto simp: stop_service_def emit_def map_of_delete_self split: option.splits prod.splits outcome.splits)

lemma stubborn_phases:
  "stop_phases (posix f) (stubborn n) =
     ([Getpgid n, Killpg n SIGTERM, WaitTimeout n 5, Getpgid n, Killpg n SIGKILL, Wait n], Completed)"
  by (simp add: stop_phases_def graceful_signal_def forceful_signal_def signal_group_def
        posix_def stubborn_def)

lemma graceful_signal_outcome:
  "snd (graceful_signal pf p) =
     (if has_killpg pf then
        (case getpgid p SIGTERM of
           Inl e \<Rightarrow> Some e
         | Inr g \<Rightarrow> killpg p SIGTERM)
      else terminate p)"
  by (simp add: graceful_signal_def signal_group_def split: sum.split)

lemma forceful_signal_outcome:
  "snd (forceful_signal pf p) =
     (if has_killpg pf then
        (case getpgid p SIGKILL of
           Inl e \<Rightarrow> Some e
         | Inr g \<Rightarrow> killpg p SIGKILL)
      else kill p)"
  by (simp add: forceful_signal_def signal_group_def split: sum.split)

lemma stop_phases_graceful_raises:
  "snd (graceful_signal pf p) = Some e \<Longrightarrow> stop_phases pf p = (fst (graceful_signal pf p), Raised e)"
  by (simp add: stop_phases_cases)

lemma stop_phases_exits_in_window:
  "snd (graceful_signal pf p) = None \<Longrightarrow> wait_timeout p 5 \<Longrightarrow>
     stop_phases pf p = (fst (graceful_signal pf p) @ [WaitTimeout (pid p) 5], Completed)"
  by (simp add: stop_phases_cases)

lemma stop_phases_forceful_raises:
  "snd (graceful_signal pf p) = None \<Longrightarrow> \<not> wait_timeout p 5 \<Longrightarrow>
   snd (forceful_signal pf p) = Some e \<Longrightarrow>
     stop_phases pf p =
       (fst (graceful_signal pf p) @ [WaitTimeout (pid p) 5] @ fst (forceful_signal pf p),
        Raised e)"
  by (simp add: stop_phases_cases)

lemma stop_phases_killed:
  "snd (graceful_signal pf p) = None \<Longrightarrow> \<not> wait_timeout p 5 \<Longrightarrow>
   snd (forceful_signal pf p) = None \<Longrightarrow>
     stop_phases pf p =
       (fst (graceful_signal pf p) @ [WaitTimeout (pid p) 5] @ fst (forceful_signal pf p)
          @ [Wait (pid p)],
        if wait p then Completed else Blocked)"
  by (simp add: stop_phases_cases)

lemma stop_service_completed:
  "map_of (running_services w) name = Some p \<Longrightarrow> stop_phases pf p = (es, Completed) \<Longrightarrow>
     stop_service pf name w =
       Some (w\<lparr>running_services := AList.delete name (running_services w),
               events := events w @ es @ [UpdateServiceStatus name False, LogStopped name]\<rparr>)"
  by (simp add: stop_service_def emit_def)

lemma stop_service_raised:
  "map_of (running_services w) name = Some p \<Longrightarrow> stop_phases pf p = (es, Raised e) \<Longrightarrow>
     stop_service pf name w =
       Some (w\<lparr>running_services := AList.delete name (running_services w),
               events := events w @ es @ [LogFailedToStop name e]\<rparr>)"
  by (simp add: stop_service_def emit_def)

text \<open>
  C1, as it holds of \<^verbatim>\<open>stop_service\<close> in \<^verbatim>\<open>claude_v4.py\<close>. For a registered name with
  process \<open>p\<close>, the calls made are \<open>fst (stop_phases pf p)\<close>:
  \<^item> no forceful kill and no wait comes before the graceful request;
  \<^item> when the graceful request is delivered, the wait of at most 5 seconds follows it;
  \<^item> when the process exits within that wait, no forceful kill is sent;
  \<^item> a forceful kill is never sent twice; when the wait times out (and the process
    group can still be looked up) it is sent exactly once; when it is delivered, the wait
    without timeout follows it;
  \<^item> the call fails to return only when that last wait blocks;
  \<^item> whenever the call returns the name is absent from the registry, so a start followed
    by a stop of the same name that returns ends with the name absent.

  The last conjuncts fix the calls and the result in full. The graceful request and the
  forceful kill are each the one call the platform has (\<^verbatim>\<open>os.getpgid\<close> then \<^verbatim>\<open>os.killpg\<close>,
  or \<^verbatim>\<open>terminate()\<close>, \<^verbatim>\<open>kill()\<close>), with the answer of that call. The trace is one of four:
  the graceful request alone when it raises; the request and the 5 second wait when the
  process exits in time; these and the forceful kill when the kill raises; these, the kill
  and the wait without timeout otherwise. So a signal that raises ends the calls there,
  and there is one wait of 5 seconds at most. When the phases complete the entry is
  deleted, the list item updated and ``Stopped'' logged; when a signal raises the entry is
  deleted and ``Failed to stop'' logged.
\<close>

theorem stop_service_two_phase:
  assumes "map_of (running_services w) name = Some p"
  shows "list_all (\<lambda>e. \<not> is_forceful e \<and> \<not> is_wait e)
           (takeWhile (\<lambda>e. \<not> is_graceful e) (fst (stop_phases pf p)))
       \<and> (snd (graceful_signal pf p) = None \<longrightarrow>
            (\<exists>post. fst (stop_phases pf p) =
                       fst (graceful_signal pf p) @ [WaitTimeout (pid p) 5] @ post)
            \<and> (\<exists>e\<in>set (fst (graceful_signal pf p)). is_graceful e))
       \<and> (wait_timeout p 5 \<longrightarrow> filter is_forceful (fst (stop_phases pf p)) = [])
       \<and> length (filter is_forceful (fst (stop_phases pf p))) \<le> 1
       \<and> (snd (graceful_signal pf p) = None \<and> \<not> wait_timeout p 5
              \<and> (has_killpg pf \<longrightarrow> (\<exists>g. getpgid p SIGKILL = Inr g)) \<longrightarrow>
            length (filter is_forceful (fst (stop_phases pf p))) = 1)
       \<and> (snd (graceful_signal pf p) = None \<and> \<not> wait_timeout p 5
              \<and> snd (forceful_signal pf p) = None \<longrightarrow>
            (\<exists>pre f. fst (stop_phases pf p) = pre @ [f, Wait (pid p)] \<and> is_forceful f))
       \<and> (stop_service pf name w = None \<longleftrightarrow>
            snd (graceful_signal pf p) = None \<and> \<not> wait_timeout p 5
              \<and> snd (forceful_signal pf p) = None \<and> \<not> wait p)
       \<and> (\<forall>w'. stop_service pf name w = Some w' \<longrightarrow>
            map_of (running_services w') name = None
            \<and> (\<exists>logs. events w' = events w @ fst (stop_phases pf p) @ logs
                  \<and> (\<forall>e\<in>set logs. \<not> is_signal e \<and> \<not> is_wait e)))
       \<and> (\<forall>w0 w'. stop_service pf name (start_service pf name w0) = Some w' \<longrightarrow>
            map_of (running_services w') name = None)
       \<and> fst (graceful_signal pf p) =
            (if has_killpg pf then
               (case getpgid p SIGTERM of
                  Inl e \<Rightarrow> [Getpgid (pid p)]
                | Inr g \<Rightarrow> [Getpgid (pid p), Killpg g SIGTERM])
             else [Terminate (pid p)])
       \<and> snd (graceful_signal pf p) =
            (if has_killpg pf then
               (case getpgid p SIGTERM of
                  Inl e \<Rightarrow> Some e
                | Inr g \<Rightarrow> killpg p SIGTERM)
             else terminate p)
       \<and> fst (forceful_signal pf p) =
            (if has_killpg pf then
               (case getpgid p SIGKILL of
                  Inl e \<Rightarrow> [Getpgid (pid p)]
                | Inr g \<Rightarrow> [Getpgid (pid p), Killpg g SIGKILL])
             else [Kill (pid p)])
       \<and> snd (forceful_signal pf p) =
            (if has_killpg pf then
               (case getpgid p SIGKILL of
                  Inl e \<Rightarrow> Some e
                | Inr g \<Rightarrow> killpg p SIGKILL)
             else kill p)
       \<and> (\<forall>e. snd (graceful_signal pf p) = Some e \<longrightarrow>
            stop_phases pf p = (fst (graceful_signal pf p), Raised e))
       \<and> (snd (graceful_signal pf p) = None \<and> wait_timeout p 5 \<longrightarrow>
            stop_phases pf p =
              (fst (graceful_signal pf p) @ [WaitTimeout (pid p) 5], Completed))
       \<and> (\<forall>e. snd (graceful_signal pf p) = None \<and> \<not> wait_timeout p 5
                \<and> snd (forceful_signal pf p) = Some e \<longrightarrow>
            stop_phases pf p =
              (fst (graceful_signal pf p) @ [WaitTimeout (pid p) 5]
                 @ fst (forceful_signal pf p),
               Raised e))
       \<and> (snd (graceful_signal pf p) = None \<and> \<not> wait_timeout p 5
              \<and> snd (forceful_signal pf p) = None \<longrightarrow>
            stop_phases pf p =
              (fst (graceful_signal pf p) @ [WaitTimeout (pid p) 5]
                 @ fst (forceful_signal pf p) @ [Wait (pid p)],
               if wait p then Completed else Blocked))
       \<and> (\<forall>es. stop_phases pf p = (es, Completed) \<longrightarrow>
            stop_service pf name w =
              Some (w\<lparr>running_services := AList.delete name (running_services w),
                      events := events w @ es
                                  @ [UpdateServiceStatus name False, LogStopped name]\<rparr>))
       \<and> (\<forall>es e. stop_phases pf p = (es, Raised e) \<longrightarrow>
            stop_service pf name w =
              Some (w\<lparr>running_services := AList.delete name (running_services w),
                      events := events w @ es @ [LogFailedToStop name e]\<rparr>))"
proof -
  have "snd (graceful_signal pf p) = None \<longrightarrow>
            (\<exists>post. fst (stop_phases pf p) =
                       fst (graceful_signal pf p) @ [WaitTimeout (pid p) 5] @ post)
            \<and> (\<exists>e\<in>set (fst (graceful_signal pf p)). is_graceful e)"
    using delivered_then_bounded_wait [of pf p] by blast
  moreover have "\<forall>w'. stop_service pf name w = Some w' \<longrightarrow>
            map_of (running_services w') name = None
            \<and> (\<exists>logs. events w' = events w @ fst (stop_phases pf p) @ logs
                  \<and> (\<forall>e\<in>set logs. \<not> is_signal e \<and> \<not> is_wait e))"
    using stop_service_result [OF assms] stop_service_absent by blast
  moreover have "stop_service pf name w = None \<longleftrightarrow>
            snd (graceful_signal pf p) = None \<and> \<not> wait_timeout p 5
              \<and> snd (forceful_signal pf p) = None \<and> \<not> wait p"
    using stop_service_returns [OF assms] stop_phases_blocked by simp
  moreover have "\<forall>w0 w'. stop_service pf name (start_service pf name w0) = Some w' \<longrightarrow>
            map_of (running_services w') name = None"
    using stop_service_absent by blast
  moreover have "\<forall>e. snd (graceful_signal pf p) = Some e \<longrightarrow>
            stop_phases pf p = (fst (graceful_signal pf p), Raised e)"
    using stop_phases_graceful_raises by blast
  moreover have "snd (graceful_signal pf p) = None \<and> wait_timeout p 5 \<longrightarrow>
            stop_phases pf p =
              (fst (graceful_signal pf p) @ [WaitTimeout (pid p) 5], Completed)"
    using stop_phases_exits_in_window by blast
  moreover have "\<forall>e. snd (graceful_signal pf p) = None \<and> \<not> wait_timeout p 5
                \<and> snd (forceful_signal pf p) = Some e \<longrightarrow>
            stop_phases pf p =
              (fst (graceful_signal pf p) @ [WaitTimeout (pid p) 5]
                 @ fst (forceful_signal pf p),
               Raised e)"
    using stop_phases_forceful_raises by blast
  moreover have "snd (graceful_signal pf p) = None \<and> \<not> wait_timeout p 5
              \<and> snd (forceful_signal pf p) = None \<longrightarrow>
            stop_phases pf p =
              (fst (graceful_signal pf p) @ [WaitTimeout (pid p) 5]
                 @ fst (forceful_signal pf p) @ [Wait (pid p)],
               if wait p then Completed else Blocked)"
    using stop_phases_killed by blast
  moreover have "\<forall>es. stop_phases pf p = (es, Completed) \<longrightarrow>
            stop_service pf name w =
              Some (w\<lparr>running_services := AList.delete name (running_services w),
                      events := events w @ es
                                  @ [UpdateServiceStatus name False, LogStopped name]\<rparr>)"
    using stop_service_completed [OF assms] by blast
  moreover have "\<forall>es e. stop_phases pf p = (es, Raised e) \<longrightarrow>
            stop_service pf name w =
              Some (w\<lparr>running_services := AList.delete name (running_services w),
                      events := events w @ es @ [LogFailedToStop name e]\<rparr>)"
    using stop_service_raised [OF assms] by blast
  moreover note graceful_request_first [of pf p] exit_in_window_no_kill [of p pf]
      timeout_one_kill [of pf p] kill_then_unbounded_wait [of pf p] at_most_one_kill [of pf p]
      graceful_signal_events [of pf p] graceful_signal_outcome [of pf p]
      forceful_signal_events [of pf p] forceful_signal_outcome [of pf p]
  ultimately show ?thesis
    by (intro conjI) blast+
qed

text \<open>A service that ignores the graceful request: one kill, then the entry is gone.\<close>

theorem stop_service_two_phase_witness:
  "map_of (running_services (window Map.empty [(''api_service.py'', stubborn 4001)]))
       ''api_service.py'' = Some (stubborn 4001)
   \<and> fst (stop_phases (posix spawn_stubborn) (stubborn 4001)) =
       [Getpgid 4001, Killpg 4001 SIGTERM, WaitTimeout 4001 5,
        Getpgid 4001, Killpg 4001 SIGKILL, Wait 4001]
   \<and> length (filter is_forceful (fst (stop_phases (posix spawn_stubborn) (stubborn 4001)))) = 1
   \<and> (\<exists>w'. stop_service (posix spawn_stubborn) ''api_service.py''
               (window Map.empty [(''api_service.py'', stubborn 4001)]) = Some w'
            \<and> map_of (running_services w') ''api_service.py'' = None)"
proof -
  have reg: "map_of (running_services (window Map.empty [(''api_service.py'', stubborn 4001)]))
               ''api_service.py'' = Some (stubborn 4001)"
    by (simp add: window_def)
  have ret: "stop_service (posix spawn_stubborn) ''api_service.py''
               (window Map.empty [(''api_service.py'', stubborn 4001)]) \<noteq> None"
    by (simp add: stop_service_def stubborn_phases window_def)
  note all = stop_service_two_phase [OF reg, of "posix spawn_stubborn"]
  have absent: "\<forall>w'. stop_service (posix spawn_stubborn) ''api_service.py''
                       (window Map.empty [(''api_service.py'', stubborn 4001)]) = Some w' \<longrightarrow>
                     map_of (running_services w') ''api_service.py'' = None"
    using all [THEN conjunct2, THEN conjunct2, THEN conjunct2, THEN conjunct2,
               THEN conjunct2, THEN conjunct2, THEN conjunct2, THEN conjunct1]
    by blast
  have trace: "fst (stop_phases (posix spawn_stubborn) (stubborn 4001)) =
       [Getpgid 4001, Killpg 4001 SIGTERM, WaitTimeout 4001 5,
        Getpgid 4001, Killpg 4001 SIGKILL, Wait 4001]"
    by (simp add: stubborn_phases)
  have once: "length (filter is_forceful
                (fst (stop_phases (posix spawn_stubborn) (stubborn 4001)))) = 1"
    by (simp add: stubborn_phases)
  from ret absent
  have "\<exists>w'. stop_service (posix spawn_stubborn) ''api_service.py''
               (window Map.empty [(''api_service.py'', stubborn 4001)]) = Some w'
            \<and> map_of (running_services w') ''api_service.py'' = None"
    by auto
  with reg trace once show ?thesis by blast
qed

text \<open>
  \<^verbatim>\<open>stop_service\<close> of \<^verbatim>\<open>claude_v3.py\<close> on the same service, started and then stopped:
  the wait times out, no forceful kill is sent, and the name stays in the registry.
\<close>

theorem stop_service_v3_no_forceful_phase:
  "stop_service_v3 ''api_service.py''
      (start_service_v3 (posix spawn_stubborn) ''api_service.py'' (window Map.empty []))
   = \<lparr>config_data = Map.empty,
      running_services = [(''api_service.py'', stubborn 4001)],
      is_closing = False, services_list = [], popen_count = 1,
      events = [Popen ''api_service.py'' False,
                UpdateServiceStatus ''api_service.py'' True,
                LogStarted ''api_service.py'' 4001,
                Terminate 4001, WaitTimeout 4001 5,
                LogFailedToStop ''api_service.py'' TimeoutExpired]\<rparr>"
  by (simp add: stop_service_v3_def start_service_v3_def emit_def window_def posix_def
        spawn_stubborn_def stubborn_def)

section \<open>When a signal cannot be delivered\<close>

lemma stop_phases_raised:
  "snd (stop_phases pf p) = Raised e \<longleftrightarrow>
     snd (graceful_signal pf p) = Some e
     \<or> (snd (graceful_signal pf p) = None \<and> \<not> wait_timeout p 5 \<and> snd (forceful_signal pf p) = Some e)"
  by (auto simp: stop_phases_cases split: option.split)

lemma stop_phases_only_calls:
  "list_all (\<lambda>ev. ev \<noteq> LogStopped name \<and> ev \<noteq> UpdateServiceStatus name False \<and> ev \<noteq> Poll q)
     (fst (stop_phases pf p))"
  by (auto simp: stop_phases_cases graceful_signal_events forceful_signal_events
           split: option.split sum.split)

lemma gone_phases:
  "stop_phases (posix f) (gone n) = ([Getpgid n], Raised ProcessLookupError)"
  by (simp add: stop_phases_def graceful_signal_def signal_group_def posix_def gone_def)

lemma gone_graceful:
  "snd (graceful_signal (posix f) (gone n)) = Some ProcessLookupError"
  by (simp add: graceful_signal_def signal_group_def posix_def gone_def)

text \<open>
  C3, as it holds of \<^verbatim>\<open>stop_service\<close> in \<^verbatim>\<open>claude_v4.py\<close>. When the graceful request,
  or after a timeout the forceful kill, raises an exception \<open>e\<close> (whichever it is:
  the process has gone, or it is alive and may not be signalled), the call returns, the
  entry is removed from the registry, and the log ends with ``Failed to stop'' and \<open>e\<close>.
  Among the calls made there is no \<^verbatim>\<open>poll\<close> of the process, no update of the list item
  and no ``Stopped'' message.
\<close>

theorem stop_service_signal_failure:
  assumes "map_of (running_services w) name = Some p"
    and "snd (graceful_signal pf p) = Some e
         \<or> (snd (graceful_signal pf p) = None \<and> \<not> wait_timeout p 5
             \<and> snd (forceful_signal pf p) = Some e)"
  shows "stop_service pf name w =
           Some (w\<lparr>running_services := AList.delete name (running_services w),
                   events := events w @ fst (stop_phases pf p) @ [LogFailedToStop name e]\<rparr>)
       \<and> map_of (AList.delete name (running_services w)) name = None
       \<and> list_all (\<lambda>ev. ev \<noteq> LogStopped name \<and> ev \<noteq> UpdateServiceStatus name False
                          \<and> ev \<noteq> Poll (pid p))
           (fst (stop_phases pf p))"
proof -
  from assms(2) have "snd (stop_phases pf p) = Raised e"
    by (simp add: stop_phases_raised)
  then have "stop_service pf name w =
           Some (w\<lparr>running_services := AList.delete name (running_services w),
                   events := events w @ fst (stop_phases pf p) @ [LogFailedToStop name e]\<rparr>)"
    using assms(1) by (cases "stop_phases pf p") (simp add: stop_service_def emit_def)
  then show ?thesis
    using stop_phases_only_calls [of name "pid p" pf p] by (simp add: map_of_delete_self)
qed

text \<open>A process that had gone before the signal: the stop is logged as failed.\<close>

theorem stop_service_signal_failure_witness:
  "map_of (running_services (window Map.empty [(''data_service.py'', gone 4001)]))
       ''data_service.py'' = Some (gone 4001)
   \<and> snd (graceful_signal (posix spawn_responsive) (gone 4001)) = Some ProcessLookupError
   \<and> stop_service (posix spawn_responsive) ''data_service.py''
        (window Map.empty [(''data_service.py'', gone 4001)])
      = Some \<lparr>config_data = Map.empty, running_services = [], is_closing = False,
              services_list = [], popen_count = 0,
              events = [Getpgid 4001, LogFailedToStop ''data_service.py'' ProcessLookupError]\<rparr>"
proof -
  have reg: "map_of (running_services (window Map.empty [(''data_service.py'', gone 4001)]))
               ''data_service.py'' = Some (gone 4001)"
    by (simp add: window_def)
  have fails: "snd (graceful_signal (posix spawn_responsive) (gone 4001)) = Some ProcessLookupError
         \<or> (snd (graceful_signal (posix spawn_responsive) (gone 4001)) = None
             \<and> \<not> wait_timeout (gone 4001) 5
             \<and> snd (forceful_signal (posix spawn_responsive) (gone 4001)) = Some ProcessLookupError)"
    by (simp add: gone_graceful)
  show ?thesis
    using reg stop_service_signal_failure [OF reg fails]
    by (simp add: gone_graceful gone_phases window_def)
qed

text \<open>
  A process that is alive (\<^verbatim>\<open>poll()\<close> is \<^verbatim>\<open>None\<close>) and may not be signalled: its
  entry is removed all the same.
\<close>

theorem stop_service_forgets_unkillable:
  "poll (unkillable 4001)
   \<and> stop_service (posix spawn_responsive) ''auth_service.py''
        (window Map.empty [(''auth_service.py'', unkillable 4001)])
      = Some \<lparr>config_data = Map.empty, running_services = [], is_closing = False,
              services_list = [], popen_count = 0,
              events = [Getpgid 4001, Killpg 4001 SIGTERM,
                        LogFailedToStop ''auth_service.py'' PermissionError]\<rparr>"
  by (simp add: stop_service_def stop_phases_def graceful_signal_def signal_group_def emit_def
        window_def posix_def unkillable_def)

section \<open>Process groups\<close>

lemma start_service_events_new:
  "map_of (running_services w) name = None \<Longrightarrow>
     \<exists>rest. events (start_service pf name w) = events w @ Popen name (has_setsid pf) # rest"
  by (simp add: start_service_def emit_def split: sum.split)

lemma stop_phases_group_directed:
  assumes "has_killpg pf" "ev \<in> set (fst (stop_phases pf p))" "is_signal ev"
  shows "\<exists>g sg. getpgid p sg = Inr g \<and> ev = Killpg g sg"
  using assms
  by (auto simp: stop_phases_cases graceful_signal_events forceful_signal_events is_signal_def
           split: option.splits sum.splits if_splits)

text \<open>
  C8, as it holds of \<^verbatim>\<open>claude_v4.py\<close> on a platform whose \<^verbatim>\<open>os\<close> module has \<^verbatim>\<open>setsid\<close>
  and \<^verbatim>\<open>killpg\<close>. \<^verbatim>\<open>start_service\<close> of an unregistered name calls \<^verbatim>\<open>Popen\<close> with
  \<^verbatim>\<open>preexec_fn=os.setsid\<close>, so the child leads a session and process group of its own;
  every signal \<^verbatim>\<open>stop_service\<close> sends, graceful or forceful, is an \<^verbatim>\<open>os.killpg\<close> to
  the group \<^verbatim>\<open>os.getpgid\<close> reports for the child.
\<close>

theorem process_group_signalling:
  assumes "has_setsid pf" and "has_killpg pf"
  shows "(map_of (running_services w) name = None \<longrightarrow>
            (\<exists>rest. events (start_service pf name w) = events w @ Popen name True # rest))
       \<and> (\<forall>ev\<in>set (fst (stop_phases pf p)).
            is_signal ev \<longrightarrow> (\<exists>g sg. getpgid p sg = Inr g \<and> ev = Killpg g sg))
       \<and> (\<forall>w'. map_of (running_services w) name = Some p \<and> stop_service pf name w = Some w' \<longrightarrow>
            (\<forall>ev\<in>set (drop (length (events w)) (events w')).
               is_signal ev \<longrightarrow> (\<exists>g sg. getpgid p sg = Inr g \<and> ev = Killpg g sg)))"
proof -
  have a: "map_of (running_services w) name = None \<longrightarrow>
            (\<exists>rest. events (start_service pf name w) = events w @ Popen name True # rest)"
    using start_service_events_new [of w name pf] assms(1) by simp
  have b: "\<forall>ev\<in>set (fst (stop_phases pf p)).
            is_signal ev \<longrightarrow> (\<exists>g sg. getpgid p sg = Inr g \<and> ev = Killpg g sg)"
    using stop_phases_group_directed [OF assms(2)] by blast
  have c: "\<forall>w'. map_of (running_services w) name = Some p \<and> stop_service pf name w = Some w' \<longrightarrow>
            (\<forall>ev\<in>set (drop (length (events w)) (events w')).
               is_signal ev \<longrightarrow> (\<exists>g sg. getpgid p sg = Inr g \<and> ev = Killpg g sg))"
  proof (intro allI impI ballI)
    fix w' ev
    assume h: "map_of (running_services w) name = Some p \<and> stop_service pf name w = Some w'"
      and ev: "ev \<in> set (drop (length (events w)) (events w'))" and sg: "is_signal ev"
    from h stop_service_result [of w name p pf w']
    obtain logs where l: "events w' = events w @ fst (stop_phases pf p) @ logs"
      and q: "\<forall>e\<in>set logs. \<not> is_signal e \<and> \<not> is_wait e" by blast
    from l ev have "ev \<in> set (fst (stop_phases pf p)) \<or> ev \<in> set logs" by auto
    with q sg have "ev \<in> set (fst (stop_phases pf p))" by blast
    with b sg show "\<exists>g sg. getpgid p sg = Inr g \<and> ev = Killpg g sg" by blast
  qed
  from a b c show ?thesis by blast
qed

theorem process_group_signalling_witness:
  "has_setsid (posix spawn_stubborn) \<and> has_killpg (posix spawn_stubborn)
   \<and> events (start_service (posix spawn_stubborn) ''api_service.py'' (window Map.empty []))
       = [Popen ''api_service.py'' True, UpdateServiceStatus ''api_service.py'' True,
          LogStarted ''api_service.py'' 4001]
   \<and> filter is_signal (fst (stop_phases (posix spawn_stubborn) (stubborn 4001)))
       = [Killpg 4001 SIGTERM, Killpg 4001 SIGKILL]
   \<and> getpgid (stubborn 4001) SIGTERM = Inr 4001"
proof -
  have s: "has_setsid (posix spawn_stubborn)" and k: "has_killpg (posix spawn_stubborn)"
    by (simp_all add: posix_def)
  have started: "events (start_service (posix spawn_stubborn) ''api_service.py'' (window Map.empty []))
       = [Popen ''api_service.py'' True, UpdateServiceStatus ''api_service.py'' True,
          LogStarted ''api_service.py'' 4001]"
    by (simp add: start_service_def emit_def window_def posix_def spawn_stubborn_def stubborn_def)
  have signals: "filter is_signal (fst (stop_phases (posix spawn_stubborn) (stubborn 4001)))
       = [Killpg 4001 SIGTERM, Killpg 4001 SIGKILL]"
    by (simp add: stubborn_phases is_signal_def)
  have grp: "getpgid (stubborn 4001) SIGTERM = Inr 4001"
    by (simp add: stubborn_def)
  show ?thesis
    using s k started signals grp
      process_group_signalling [OF s k, of "window Map.empty []" "''api_service.py''" "stubborn 4001"]
    by simp
qed

text \<open>
  \<^verbatim>\<open>claude_v3.py\<close>: \<^verbatim>\<open>Popen\<close> is called without \<^verbatim>\<open>preexec_fn\<close>, and the stop signal is
  \<^verbatim>\<open>process.terminate()\<close>, sent to the one child.
\<close>

theorem v3_signals_one_process:
  "events (stop_service_v3 ''auth_service.py''
      (start_service_v3 (posix spawn_responsive) ''auth_service.py'' (window Map.empty [])))
   = [Popen ''auth_service.py'' False, UpdateServiceStatus ''auth_service.py'' True,
      LogStarted ''auth_service.py'' 4001,
      Terminate 4001, WaitTimeout 4001 5,
      UpdateServiceStatus ''auth_service.py'' False, LogStopped ''auth_service.py'']"
  by (simp add: stop_service_v3_def start_service_v3_def emit_def window_def posix_def
        spawn_responsive_def responsive_def)

text \<open>
  \<^verbatim>\<open>claude_v4.py\<close> where \<^verbatim>\<open>os\<close> has neither \<^verbatim>\<open>setsid\<close> nor \<^verbatim>\<open>killpg\<close>: both signals go
  to the one child.
\<close>

lemma no_groups_signals_one_process:
  "map_option events (stop_service (no_groups spawn_stubborn) ''auth_service.py''
      (start_service (no_groups spawn_stubborn) ''auth_service.py'' (window Map.empty [])))
   = Some [Popen ''auth_service.py'' False, UpdateServiceStatus ''auth_service.py'' True,
      LogStarted ''auth_service.py'' 4001,
      Terminate 4001, WaitTimeout 4001 5, Kill 4001, Wait 4001,
      UpdateServiceStatus ''auth_service.py'' False, LogStopped ''auth_service.py'']"
  by (simp add: stop_service_def stop_phases_def graceful_signal_def forceful_signal_def
        start_service_def emit_def window_def no_groups_def
        spawn_stubborn_def stubborn_def)

section \<open>Shutting everything down\<close>

lemma sweeps_append: "sweeps (xs @ ys) = sweeps xs + sweeps ys"
  by (simp add: sweeps_def)

lemma start_service_quiet:
  "is_closing (start_service pf n w) = is_closing w
   \<and> sweeps (events (start_service pf n w)) = sweeps (events w)"
  by (simp add: start_service_def emit_def sweeps_def split: option.split sum.split)

lemma fold_start_service_quiet:
  "is_closing (fold (start_service pf) ns w) = is_closing w
   \<and> sweeps (events (fold (start_service pf) ns w)) = sweeps (events w)"
  by (induction ns arbitrary: w) (simp_all add: start_service_quiet)

lemma stop_phases_quiet: "sweeps (fst (stop_phases pf p)) = 0"
  by (simp add: stop_phases_cases graceful_signal_events forceful_signal_events sweeps_def
        split: option.split sum.split)

lemma stop_service_quiet:
  assumes "stop_service pf n w = Some w'"
  shows "is_closing w' = is_closing w \<and> sweeps (events w') = sweeps (events w)"
proof (cases "map_of (running_services w) n")
  case None
  with assms show ?thesis by (auto simp: stop_service_def emit_def sweeps_def)
next
  case (Some p)
  with assms have "is_closing w' = is_closing w"
    and "sweeps (events w') = sweeps (events w) + sweeps (fst (stop_phases pf p))"
    by (auto simp: stop_service_def emit_def sweeps_def split: prod.splits outcome.splits)
  then show ?thesis by (simp add: stop_phases_quiet)
qed

lemma stop_each_quiet:
  "stop_each pf ns w = Some w' \<Longrightarrow>
     is_closing w' = is_closing w \<and> sweeps (events w') = sweeps (events w)"
proof (induction ns arbitrary: w)
  case Nil
  then show ?case by simp
next
  case (Cons n ns)
  then obtain w1 where s: "stop_service pf n w = Some w1" and r: "stop_each pf ns w1 = Some w'"
    by (auto split: option.splits)
  from stop_service_quiet [OF s] Cons.IH [OF r] show ?case by simp
qed

lemma stop_all_services_quiet:
  "stop_all_services pf w = Some w' \<Longrightarrow>
     is_closing w' = is_closing w \<and> sweeps (events w') = sweeps (events w)"
  by (auto simp: stop_all_services_def dest: stop_each_quiet split: if_splits)

lemma cleanup_one_quiet: "sweeps (fst (cleanup_one item)) = 0"
  by (cases item) (simp add: cleanup_one_def sweeps_def split: option.split)

lemma cleanup_loop_quiet:
  "cleanup_loop items es = Some es' \<Longrightarrow> sweeps es' = sweeps es"
proof (induction items arbitrary: es)
  case Nil
  then show ?case by simp
next
  case (Cons item items)
  obtain es1 b where c: "cleanup_one item = (es1, b)" by (cases "cleanup_one item")
  with Cons.prems have b and r: "cleanup_loop items (es @ es1) = Some es'"
    by (auto split: if_splits bool.splits)
  from Cons.IH [OF r] cleanup_one_quiet [of item] c show ?case
    by (simp add: sweeps_append)
qed

lemma cleanup_all_processes_closing:
  "is_closing w \<Longrightarrow> cleanup_all_processes w = Some w"
  by (simp add: cleanup_all_processes_def)

lemma cleanup_all_processes_sweeps:
  assumes "cleanup_all_processes w = Some w'"
  shows "is_closing w'
       \<and> sweeps (events w') = (if is_closing w then sweeps (events w) else Suc (sweeps (events w)))"
proof (cases "is_closing w")
  case True
  with assms show ?thesis by (simp add: cleanup_all_processes_def)
next
  case False
  with assms obtain es
    where l: "cleanup_loop (running_services w) (events w @ [PrintCleaningUp]) = Some es"
      and w': "w' = w\<lparr>is_closing := True, running_services := [],
                        events := es @ [PrintAllCleanedUp]\<rparr>"
    by (auto simp: cleanup_all_processes_def split: option.splits)
  from cleanup_loop_quiet [OF l] have "sweeps es = Suc (sweeps (events w))"
    by (simp add: sweeps_def)
  with w' False show ?thesis by (simp add: sweeps_def)
qed

lemma do_op_swept_once:
  assumes "swept_once w" "do_op pf x w = Some w'"
  shows "swept_once w'"
proof (cases x)
  case (StartService n)
  with assms show ?thesis by (auto simp: swept_once_def start_service_quiet)
next
  case (StopService n)
  with assms stop_service_quiet [of pf n w w'] show ?thesis by (auto simp: swept_once_def)
next
  case StartAll
  with assms show ?thesis
    by (auto simp: swept_once_def start_all_services_def fold_start_service_quiet)
next
  case StopAll
  with assms stop_all_services_quiet [of pf w w'] show ?thesis by (auto simp: swept_once_def)
next
  case CleanupAll
  with assms cleanup_all_processes_sweeps [of w w'] show ?thesis
    by (auto simp: swept_once_def split: if_splits)
next
  case CloseEvent
  with assms cleanup_all_processes_sweeps [of w w'] show ?thesis
    by (auto simp: swept_once_def closeEvent_def split: if_splits)
qed

lemma run_swept_once:
  "swept_once w \<Longrightarrow> run pf ops w = Some w' \<Longrightarrow> swept_once w'"
proof (induction ops arbitrary: w)
  case Nil
  then show ?case by simp
next
  case (Cons x xs)
  then obtain w1 where d: "do_op pf x w = Some w1" and r: "run pf xs w1 = Some w'"
    by (auto split: option.splits)
  from Cons.IH [OF do_op_swept_once [OF Cons.prems(1) d] r] show ?case .
qed

lemma sample_cleanup:
  "cleanup_all_processes (window Map.empty [(''auth_service.py'', stubborn 4001)])
     = Some swept_window"
  by (simp add: cleanup_all_processes_def cleanup_one_def window_def stubborn_def swept_window_def)

lemma sample_session:
  "run (posix spawn_responsive)
     [StartService ''auth_service.py'', CloseEvent, StartService ''data_service.py'',
      CleanupAll, StopAll, CloseEvent] (window Map.empty [])
   = Some \<lparr>config_data = Map.empty,
           running_services = [(''data_service.py'', responsive 4002)],
           is_closing = True, services_list = [], popen_count = 2,
           events = [Popen ''auth_service.py'' True, UpdateServiceStatus ''auth_service.py'' True,
                     LogStarted ''auth_service.py'' 4001,
                     PrintCleaningUp, Poll 4001, PrintTerminating ''auth_service.py'',
                     Terminate 4001, WaitTimeout 4001 3, PrintAllCleanedUp,
                     Popen ''data_service.py'' True, UpdateServiceStatus ''data_service.py'' True,
                     LogStarted ''data_service.py'' 4002]\<rparr>"
  by (simp add: start_service_def emit_def closeEvent_def cleanup_all_processes_def
        cleanup_one_def stop_all_services_def window_def posix_def spawn_responsive_def
        responsive_def)

lemma cleanup_loop_events:
  "cleanup_loop items es = Some es' \<Longrightarrow>
     es' = es @ concat (map (\<lambda>item. fst (cleanup_one item)) items)"
proof (induction items arbitrary: es)
  case Nil
  then show ?case by simp
next
  case (Cons item items)
  obtain es1 b where c: "cleanup_one item = (es1, b)" by (cases "cleanup_one item")
  with Cons.prems have r: "cleanup_loop items (es @ es1) = Some es'"
    by (auto split: if_splits bool.splits)
  from Cons.IH [OF r] c show ?case by simp
qed

lemma cleanup_all_processes_sweep:
  assumes "\<not> is_closing w" and "cleanup_all_processes w = Some w'"
  shows "w' = w\<lparr>is_closing := True, running_services := [],
                 events := events w @ [PrintCleaningUp]
                   @ concat (map (\<lambda>item. fst (cleanup_one item)) (running_services w))
                   @ [PrintAllCleanedUp]\<rparr>"
proof -
  from assms obtain es
    where l: "cleanup_loop (running_services w) (events w @ [PrintCleaningUp]) = Some es"
      and w': "w' = w\<lparr>is_closing := True, running_services := [],
                        events := es @ [PrintAllCleanedUp]\<rparr>"
    by (auto simp: cleanup_all_processes_def split: option.splits)
  from cleanup_loop_events [OF l] w' show ?thesis by simp
qed

lemma closing_ops_idle:
  assumes "is_closing w" "x \<in> {StopAll, CleanupAll, CloseEvent}"
  shows "do_op pf x w = Some w"
  using assms by (auto simp: stop_all_services_def cleanup_all_processes_def closeEvent_def)

lemma closing_run_idle:
  "is_closing w \<Longrightarrow> set ops \<subseteq> {StopAll, CleanupAll, CloseEvent} \<Longrightarrow> run pf ops w = Some w"
  by (induction ops) (auto simp: closing_ops_idle)

text \<open>
  C2, as it holds of \<^verbatim>\<open>cleanup_all_processes\<close>. After a call of it that returned, the flag
  is set, and a further call of it, \<^verbatim>\<open>closeEvent\<close> and \<^verbatim>\<open>stop_all_services\<close> return the
  window as it is: no call is made, no signal sent, the registry is not read. In a session
  that starts with the flag cleared, whatever operations follow in whatever order, the
  sweep of \<^verbatim>\<open>cleanup_all_processes\<close> happens at most once. (The stop-all button runs
  \<^verbatim>\<open>stop_all_services\<close>, which is another function and does not set the flag.)

  This rests on the flag alone, whatever the registry holds: on any window with
  \<^verbatim>\<open>is_closing\<close> set, each of the three calls, and any sequence of them, returns the
  window unchanged. With the flag cleared, \<^verbatim>\<open>closeEvent\<close> is \<^verbatim>\<open>cleanup_all_processes\<close>, and a
  call of it that returns has set the flag, emptied the registry and made, between its two
  prints, exactly the calls of the loop body for each registered service in order.
\<close>

theorem cleanup_all_processes_idempotent:
  "(cleanup_all_processes w = Some w' \<longrightarrow>
      is_closing w' \<and> cleanup_all_processes w' = Some w' \<and> closeEvent w' = Some w'
      \<and> stop_all_services pf w' = Some w')
   \<and> (\<not> is_closing w0 \<and> sweeps (events w0) = 0 \<and> run pf ops w0 = Some w1 \<longrightarrow>
        sweeps (events w1) \<le> 1)
   \<and> (is_closing w \<longrightarrow>
        cleanup_all_processes w = Some w \<and> closeEvent w = Some w
        \<and> stop_all_services pf w = Some w)
   \<and> (is_closing w \<and> set ops' \<subseteq> {StopAll, CleanupAll, CloseEvent} \<longrightarrow>
        run pf ops' w = Some w)
   \<and> (\<not> is_closing w \<and> cleanup_all_processes w = Some w' \<longrightarrow>
        w' = w\<lparr>is_closing := True, running_services := [],
                events := events w @ [PrintCleaningUp]
                  @ concat (map (\<lambda>item. fst (cleanup_one item)) (running_services w))
                  @ [PrintAllCleanedUp]\<rparr>)
   \<and> (\<not> is_closing w \<longrightarrow> closeEvent w = cleanup_all_processes w)"
proof -
  have a: "cleanup_all_processes w = Some w' \<longrightarrow>
      is_closing w' \<and> cleanup_all_processes w' = Some w' \<and> closeEvent w' = Some w'
      \<and> stop_all_services pf w' = Some w'"
    using cleanup_all_processes_sweeps [of w w']
    by (auto simp: cleanup_all_processes_closing closeEvent_def stop_all_services_def)
  have b: "\<not> is_closing w0 \<and> sweeps (events w0) = 0 \<and> run pf ops w0 = Some w1 \<longrightarrow>
        sweeps (events w1) \<le> 1"
  proof
    assume h: "\<not> is_closing w0 \<and> sweeps (events w0) = 0 \<and> run pf ops w0 = Some w1"
    then have "swept_once w0" by (simp add: swept_once_def)
    with h have "swept_once w1" using run_swept_once by blast
    then show "sweeps (events w1) \<le> 1" by (simp add: swept_once_def split: if_splits)
  qed
  have c: "is_closing w \<longrightarrow>
        cleanup_all_processes w = Some w \<and> closeEvent w = Some w
        \<and> stop_all_services pf w = Some w"
    by (simp add: cleanup_all_processes_def closeEvent_def stop_all_services_def)
  have d: "is_closing w \<and> set ops' \<subseteq> {StopAll, CleanupAll, CloseEvent} \<longrightarrow>
        run pf ops' w = Some w"
    using closing_run_idle by blast
  have e: "\<not> is_closing w \<and> cleanup_all_processes w = Some w' \<longrightarrow>
        w' = w\<lparr>is_closing := True, running_services := [],
                events := events w @ [PrintCleaningUp]
                  @ concat (map (\<lambda>item. fst (cleanup_one item)) (running_services w))
                  @ [PrintAllCleanedUp]\<rparr>"
    using cleanup_all_processes_sweep by blast
  have f: "\<not> is_closing w \<longrightarrow> closeEvent w = cleanup_all_processes w"
    by (simp add: closeEvent_def)
  from a b c d e f show ?thesis by blast
qed

theorem cleanup_all_processes_idempotent_witness:
  "cleanup_all_processes (window Map.empty [(''auth_service.py'', stubborn 4001)])
     = Some swept_window
   \<and> cleanup_all_processes swept_window = Some swept_window
   \<and> closeEvent swept_window = Some swept_window
   \<and> \<not> is_closing (window Map.empty [])
   \<and> sweeps (events (window Map.empty [])) = 0
   \<and> (\<exists>w1. run (posix spawn_responsive)
              [StartService ''auth_service.py'', CloseEvent, StartService ''data_service.py'',
               CleanupAll, StopAll, CloseEvent] (window Map.empty []) = Some w1
            \<and> sweeps (events w1) = 1)
   \<and> is_closing (start_service (posix spawn_responsive) ''api_service.py'' closing_window)
   \<and> running_services (start_service (posix spawn_responsive) ''api_service.py'' closing_window)
       = [(''api_service.py'', responsive 4001)]
   \<and> cleanup_all_processes
        (start_service (posix spawn_responsive) ''api_service.py'' closing_window)
       = Some (start_service (posix spawn_responsive) ''api_service.py'' closing_window)
   \<and> stop_all_services (posix spawn_responsive)
        (start_service (posix spawn_responsive) ''api_service.py'' closing_window)
       = Some (start_service (posix spawn_responsive) ''api_service.py'' closing_window)"
proof -
  have fresh: "\<not> is_closing (window Map.empty [])" "sweeps (events (window Map.empty [])) = 0"
    by (simp_all add: window_def sweeps_def)
  have one: "sweeps [Popen ''auth_service.py'' True, UpdateServiceStatus ''auth_service.py'' True,
                     LogStarted ''auth_service.py'' 4001,
                     PrintCleaningUp, Poll 4001, PrintTerminating ''auth_service.py'',
                     Terminate 4001, WaitTimeout 4001 3, PrintAllCleanedUp,
                     Popen ''data_service.py'' True, UpdateServiceStatus ''data_service.py'' True,
                     LogStarted ''data_service.py'' 4002] = 1"
    by (simp add: sweeps_def)
  have late: "is_closing (start_service (posix spawn_responsive) ''api_service.py'' closing_window)"
    "running_services (start_service (posix spawn_responsive) ''api_service.py'' closing_window)
       = [(''api_service.py'', responsive 4001)]"
    by (simp_all add: start_service_def emit_def closing_window_def window_def posix_def
          spawn_responsive_def)
  note first = cleanup_all_processes_idempotent
        [of "window Map.empty [(''auth_service.py'', stubborn 4001)]" swept_window
            "posix spawn_responsive", THEN conjunct1]
  note flag = cleanup_all_processes_idempotent
        [of "start_service (posix spawn_responsive) ''api_service.py'' closing_window" _
            "posix spawn_responsive", THEN conjunct2, THEN conjunct2, THEN conjunct1]
  from first sample_cleanup
  have again: "cleanup_all_processes swept_window = Some swept_window"
    "closeEvent swept_window = Some swept_window"
    by simp_all
  from flag late(1)
  have idle: "cleanup_all_processes
        (start_service (posix spawn_responsive) ''api_service.py'' closing_window)
       = Some (start_service (posix spawn_responsive) ''api_service.py'' closing_window)"
    "stop_all_services (posix spawn_responsive)
        (start_service (posix spawn_responsive) ''api_service.py'' closing_window)
       = Some (start_service (posix spawn_responsive) ''api_service.py'' closing_window)"
    by simp_all
  have session: "\<exists>w1. run (posix spawn_responsive)
              [StartService ''auth_service.py'', CloseEvent, StartService ''data_service.py'',
               CleanupAll, StopAll, CloseEvent] (window Map.empty []) = Some w1
            \<and> sweeps (events w1) = 1"
    using sample_session one by simp
  from sample_cleanup again fresh session late idle show ?thesis by blast
qed

text \<open>
  The stop-all button twice, with the service started again in between: each
  \<^verbatim>\<open>stop_all_services\<close> goes through the registry and signals the service.
\<close>

theorem stop_all_sweeps_again:
  "run (posix spawn_responsive)
     [StartService ''auth_service.py'', StopAll, StartService ''auth_service.py'', StopAll]
     (window Map.empty [])
   = Some \<lparr>config_data = Map.empty, running_services = [], is_closing = False,
           services_list = [], popen_count = 2,
           events = [Popen ''auth_service.py'' True, UpdateServiceStatus ''auth_service.py'' True,
                     LogStarted ''auth_service.py'' 4001,
                     Getpgid 4001, Killpg 4001 SIGTERM, WaitTimeout 4001 5,
                     UpdateServiceStatus ''auth_service.py'' False, LogStopped ''auth_service.py'',
                     Popen ''auth_service.py'' True, UpdateServiceStatus ''auth_service.py'' True,
                     LogStarted ''auth_service.py'' 4002,
                     Getpgid 4002, Killpg 4002 SIGTERM, WaitTimeout 4002 5,
                     UpdateServiceStatus ''auth_service.py'' False, LogStopped ''auth_service.py'']\<rparr>"
  by (simp add: start_service_def emit_def stop_all_services_def stop_service_def stop_phases_def
        graceful_signal_def signal_group_def window_def posix_def spawn_responsive_def
        responsive_def)

text \<open>
  C10. Once \<^verbatim>\<open>is_closing\<close> is set, \<^verbatim>\<open>stop_all_services\<close>, \<^verbatim>\<open>cleanup_all_processes\<close> and
  \<^verbatim>\<open>closeEvent\<close> return the window as it is. \<^verbatim>\<open>start_service\<close> does not read the flag:
  for an unregistered name whose \<^verbatim>\<open>Popen\<close> succeeds it registers the new process, the
  flag stays set, and any sequence of stop-all, cleanup and close calls after it leaves the
  window unchanged: the process stays registered and no signal is sent to it.
\<close>

theorem start_after_shutdown_escapes:
  assumes "is_closing w"
    and "map_of (running_services w) name = None"
    and "popen pf (popen_count w) name = Inr p"
    and "set ops \<subseteq> {StopAll, CleanupAll, CloseEvent}"
  shows "stop_all_services pf w = Some w \<and> cleanup_all_processes w = Some w
       \<and> closeEvent w = Some w
       \<and> map_of (running_services (start_service pf name w)) name = Some p
       \<and> events (start_service pf name w) =
           events w @ [Popen name (has_setsid pf), UpdateServiceStatus name True,
                       LogStarted name (pid p)]
       \<and> is_closing (start_service pf name w)
       \<and> run pf ops (start_service pf name w) = Some (start_service pf name w)"
proof -
  have c: "is_closing (start_service pf name w)"
    using assms(1) by (simp add: start_service_quiet)
  have r: "map_of (running_services (start_service pf name w)) name = Some p"
    using assms(2,3) by (simp add: start_service_def emit_def update_conv')
  have e: "events (start_service pf name w) =
           events w @ [Popen name (has_setsid pf), UpdateServiceStatus name True,
                       LogStarted name (pid p)]"
    using assms(2,3) by (simp add: start_service_def emit_def)
  from c r e closing_run_idle [OF c assms(4)] assms(1) show ?thesis
    by (simp add: stop_all_services_def cleanup_all_processes_def closeEvent_def)
qed
theorem start_after_shutdown_escapes_witness:
  "is_closing closing_window
   \<and> map_of (running_services closing_window) ''api_service.py'' = None
   \<and> popen (posix spawn_responsive) (popen_count closing_window) ''api_service.py''
       = Inr (responsive 4001)
   \<and> set [StopAll, CleanupAll, CloseEvent] \<subseteq> {StopAll, CleanupAll, CloseEvent}
   \<and> run (posix spawn_responsive) [StopAll, CleanupAll, CloseEvent]
        (start_service (posix spawn_responsive) ''api_service.py'' closing_window)
      = Some \<lparr>config_data = Map.empty,
              running_services = [(''api_service.py'', responsive 4001)],
              is_closing = True, services_list = [], popen_count = 1,
              events = [Popen ''api_service.py'' True,
                        UpdateServiceStatus ''api_service.py'' True,
                        LogStarted ''api_service.py'' 4001]\<rparr>"
proof -
  have c: "is_closing closing_window"
    by (simp add: closing_window_def)
  have a: "map_of (running_services closing_window) ''api_service.py'' = None"
    by (simp add: closing_window_def window_def)
  have s: "popen (posix spawn_responsive) (popen_count closing_window) ''api_service.py''
       = Inr (responsive 4001)"
    by (simp add: posix_def spawn_responsive_def closing_window_def window_def)
  have ops: "set [StopAll, CleanupAll, CloseEvent] \<subseteq> {StopAll, CleanupAll, CloseEvent}"
    by simp
  have st: "start_service (posix spawn_responsive) ''api_service.py'' closing_window
      = \<lparr>config_data = Map.empty,
              running_services = [(''api_service.py'', responsive 4001)],
              is_closing = True, services_list = [], popen_count = 1,
              events = [Popen ''api_service.py'' True,
                        UpdateServiceStatus ''api_service.py'' True,
                        LogStarted ''api_service.py'' 4001]\<rparr>"
    by (simp add: start_service_def emit_def closing_window_def window_def posix_def
          spawn_responsive_def responsive_def)
  show ?thesis
    using c a s ops st start_after_shutdown_escapes [OF c a s ops]
    by simp
qed

section \<open>The auto-start sweep\<close>

lemma start_service_report:
  "start_reports (events (start_service pf n w)) = start_reports (events w) @ [n]"
  by (simp add: start_service_def emit_def start_reports_def split: option.split sum.split)

lemma start_service_keys_subset:
  "fst ` set (running_services (start_service pf n w)) \<subseteq> insert n (fst ` set (running_services w))"
  by (auto simp: start_service_def emit_def dom_update split: option.split sum.split)

lemma start_service_keys_all:
  assumes "\<forall>k n. \<exists>p. popen pf k n = Inr p"
  shows "fst ` set (running_services (start_service pf n w)) = insert n (fst ` set (running_services w))"
proof (cases "map_of (running_services w) n")
  case None
  from assms obtain p where "popen pf (popen_count w) n = Inr p" by blast
  with None show ?thesis by (simp add: start_service_def emit_def dom_update)
next
  case (Some p)
  then have "n \<in> fst ` set (running_services w)"
    by (metis domI dom_map_of_conv_image_fst)
  with Some show ?thesis by (auto simp: start_service_def emit_def)
qed

lemma fold_start_service_report:
  "start_reports (events (fold (start_service pf) ns w)) = start_reports (events w) @ ns"
  by (induction ns arbitrary: w) (simp_all add: start_service_report)

lemma fold_start_service_keys_subset:
  "fst ` set (running_services (fold (start_service pf) ns w))
     \<subseteq> fst ` set (running_services w) \<union> set ns"
proof (induction ns arbitrary: w)
  case Nil
  then show ?case by simp
next
  case (Cons n ns)
  from Cons.IH [of "start_service pf n w"] start_service_keys_subset [of pf n w]
  show ?case by auto
qed

lemma fold_start_service_keys_all:
  assumes "\<forall>k n. \<exists>p. popen pf k n = Inr p"
  shows "fst ` set (running_services (fold (start_service pf) ns w))
           = fst ` set (running_services w) \<union> set ns"
proof (induction ns arbitrary: w)
  case Nil
  then show ?case by simp
next
  case (Cons n ns)
  from Cons.IH [of "start_service pf n w"] start_service_keys_all [OF assms, of n w]
  show ?case by auto
qed

lemma sample_auto_start:
  "name_list (config_get (window sample_config []) ''auto_start'')
     = [''auth_service.py'', ''cache_service.py'']"
  by (simp add: name_list_def config_get_def window_def sample_config_def strip_def isspace_def)

lemma sample_microservices:
  "name_list (config_get (window sample_config []) ''microservices'')
     = [''auth_service.py'', ''data_service.py'', ''api_service.py'']"
  by (simp add: name_list_def config_get_def window_def sample_config_def strip_def isspace_def)

text \<open>
  C7, as it holds of \<^verbatim>\<open>auto_start_services\<close>. \<^verbatim>\<open>start_service\<close> is called once for each
  entry of the configured \<^verbatim>\<open>auto_start\<close> list, in the listed order, whether or not the
  entry is among the configured microservices. The registered names afterwards are among
  those registered before and the listed ones; when every \<^verbatim>\<open>Popen\<close> succeeds they are
  exactly those, and after \<^verbatim>\<open>MainWindow.__init__\<close> exactly the listed ones.
\<close>

theorem auto_start_services_sweep:
  "start_reports (events (auto_start_services pf w))
       = start_reports (events w) @ name_list (config_get w ''auto_start'')
   \<and> fst ` set (running_services (auto_start_services pf w))
       \<subseteq> fst ` set (running_services w) \<union> set (name_list (config_get w ''auto_start''))
   \<and> ((\<forall>k n. \<exists>p. popen pf k n = Inr p) \<longrightarrow>
        fst ` set (running_services (auto_start_services pf w))
          = fst ` set (running_services w) \<union> set (name_list (config_get w ''auto_start''))
        \<and> fst ` set (running_services (MainWindow_init pf (config_data w)))
          = set (name_list (config_get w ''auto_start'')))"
proof -
  have "(\<forall>k n. \<exists>p. popen pf k n = Inr p) \<longrightarrow>
        fst ` set (running_services (MainWindow_init pf (config_data w)))
          = set (name_list (config_get w ''auto_start''))"
    by (simp add: MainWindow_init_def load_microservices_def auto_start_services_def
          fold_start_service_keys_all config_get_def)
  then show ?thesis
    using fold_start_service_keys_subset [of pf "name_list (config_get w ''auto_start'')" w]
    by (simp add: auto_start_services_def fold_start_service_report fold_start_service_keys_all)
qed

theorem auto_start_services_sweep_witness:
  "start_reports (events (auto_start_services (posix spawn_responsive) (window sample_config [])))
     = [''auth_service.py'', ''cache_service.py'']
   \<and> fst ` set (running_services (MainWindow_init (posix spawn_responsive) sample_config))
     = {''auth_service.py'', ''cache_service.py''}"
proof -
  have ok: "\<forall>k n. \<exists>p. popen (posix spawn_responsive) k n = Inr p"
    by (simp add: posix_def spawn_responsive_def)
  have cfg: "config_data (window sample_config []) = sample_config"
    and ev: "events (window sample_config []) = []"
    by (simp_all add: window_def)
  show ?thesis
    using ok auto_start_services_sweep [of "posix spawn_responsive" "window sample_config []"]
    by (simp add: sample_auto_start cfg ev start_reports_def)
qed
text \<open>
  \<^verbatim>\<open>cache_service.py\<close> is in the \<^verbatim>\<open>auto_start\<close> list and not among the
  \<^verbatim>\<open>microservices\<close>: it is started and registered, and nothing is reported.
\<close>

theorem auto_start_outside_descriptors:
  "MainWindow_init (posix spawn_responsive) sample_config
   = \<lparr>config_data = sample_config,
      running_services = [(''auth_service.py'', responsive 4001),
                          (''cache_service.py'', responsive 4002)],
      is_closing = False,
      services_list = [''auth_service.py'', ''data_service.py'', ''api_service.py''],
      popen_count = 2,
      events = [Popen ''auth_service.py'' True, UpdateServiceStatus ''auth_service.py'' True,
                LogStarted ''auth_service.py'' 4001,
                Popen ''cache_service.py'' True, UpdateServiceStatus ''cache_service.py'' True,
                LogStarted ''cache_service.py'' 4002]\<rparr>"
proof -
  have "MainWindow_init (posix spawn_responsive) sample_config
     = load_microservices (fold (start_service (posix spawn_responsive))
         [''auth_service.py'', ''cache_service.py''] (window sample_config []))"
    using sample_auto_start
    by (simp add: MainWindow_init_def auto_start_services_def window_def)
  also have "\<dots> = \<lparr>config_data = sample_config,
      running_services = [(''auth_service.py'', responsive 4001),
                          (''cache_service.py'', responsive 4002)],
      is_closing = False,
      services_list = [''auth_service.py'', ''data_service.py'', ''api_service.py''],
      popen_count = 2,
      events = [Popen ''auth_service.py'' True, UpdateServiceStatus ''auth_service.py'' True,
                LogStarted ''auth_service.py'' 4001,
                Popen ''cache_service.py'' True, UpdateServiceStatus ''cache_service.py'' True,
                LogStarted ''cache_service.py'' 4002]\<rparr>"
    using sample_microservices
    by (simp add: load_microservices_def start_service_def emit_def window_def posix_def
          spawn_responsive_def responsive_def config_get_def)
  finally show ?thesis .
qed

section \<open>Where the operations run\<close>

lemma stop_service_appends:
  "stop_service pf n w = Some w' \<Longrightarrow> \<exists>es. events w' = events w @ es"
  by (auto simp: stop_service_def emit_def split: option.splits prod.splits outcome.splits)

lemma stop_each_appends:
  "stop_each pf ns w = Some w' \<Longrightarrow> \<exists>es. events w' = events w @ es"
proof (induction ns arbitrary: w)
  case Nil
  then show ?case by simp
next
  case (Cons n ns)
  then obtain w1 where s: "stop_service pf n w = Some w1" and r: "stop_each pf ns w1 = Some w'"
    by (auto split: option.splits)
  from stop_service_appends [OF s] Cons.IH [OF r] show ?case by auto
qed

lemma stop_service_other:
  "stop_service pf n w = Some w' \<Longrightarrow> n \<noteq> name \<Longrightarrow>
     map_of (running_services w') name = map_of (running_services w) name"
  by (auto simp: stop_service_def emit_def delete_conv' split: option.splits prod.splits outcome.splits)

lemma stop_service_waits:
  assumes "map_of (running_services w) name = Some p"
    and "snd (graceful_signal pf p) = None"
    and "stop_service pf name w = Some w'"
  shows "WaitTimeout (pid p) 5 \<in> set (drop (length (events w)) (events w'))"
proof -
  from stop_service_result [OF assms(1,3)] obtain logs
    where l: "events w' = events w @ fst (stop_phases pf p) @ logs" by blast
  from delivered_then_bounded_wait(1) [OF assms(2)] obtain post
    where "fst (stop_phases pf p) = fst (graceful_signal pf p) @ [WaitTimeout (pid p) 5] @ post"
    by blast
  with l show ?thesis by simp
qed

lemma stop_each_waits:
  assumes "snd (graceful_signal pf p) = None"
  shows "name \<in> set ns \<Longrightarrow> map_of (running_services w) name = Some p \<Longrightarrow>
         stop_each pf ns w = Some w' \<Longrightarrow>
         WaitTimeout (pid p) 5 \<in> set (drop (length (events w)) (events w'))"
proof (induction ns arbitrary: w)
  case Nil
  then show ?case by simp
next
  case (Cons n ns)
  then obtain w1 where s: "stop_service pf n w = Some w1" and r: "stop_each pf ns w1 = Some w'"
    by (auto split: option.splits)
  from stop_service_appends [OF s] obtain es1 where e1: "events w1 = events w @ es1" by blast
  from stop_each_appends [OF r] obtain es2 where e2: "events w' = events w1 @ es2" by blast
  show ?case
  proof (cases "n = name")
    case True
    with stop_service_waits [OF Cons.prems(2) assms] s
    have "WaitTimeout (pid p) 5 \<in> set (drop (length (events w)) (events w1))" by simp
    with e1 e2 show ?thesis by simp
  next
    case False
    with Cons.prems(1) have "name \<in> set ns" by simp
    moreover from stop_service_other [OF s False] Cons.prems(2)
    have "map_of (running_services w1) name = Some p" by simp
    ultimately have "WaitTimeout (pid p) 5 \<in> set (drop (length (events w1)) (events w'))"
      using Cons.IH r by blast
    with e1 e2 show ?thesis by simp
  qed
qed

lemma stop_all_services_waits:
  assumes "map_of (running_services w) name = Some p"
    and "snd (graceful_signal pf p) = None"
    and "\<not> is_closing w"
    and "stop_all_services pf w = Some w'"
  shows "WaitTimeout (pid p) 5 \<in> set (drop (length (events w)) (events w'))"
proof -
  from assms(1) have m: "name \<in> set (map fst (running_services w))"
    by (metis domI dom_map_of_conv_image_fst set_map)
  from assms(3,4) have "stop_each pf (map fst (running_services w)) w = Some w'"
    by (simp add: stop_all_services_def)
  from stop_each_waits [OF assms(2) m assms(1) this] show ?thesis .
qed

text \<open>
  C9, as it holds of the code. The slot of a button runs the operation itself: the stop
  slot on a selected, registered service is \<^verbatim>\<open>stop_service\<close> on it (and the start slot
  \<^verbatim>\<open>start_service\<close>). It fails to return exactly when the wait without timeout blocks; when
  it returns, the calls it has made are those of the two phases followed by the log (and
  list item) calls, and nothing else: no thread or task is started. So when the graceful
  request is delivered the wait of up to 5 seconds is made inside the slot, by the stop
  slot and by \<^verbatim>\<open>stop_all_services\<close> alike, and after a timeout and a delivered kill so is
  the wait without timeout.
\<close>

theorem operations_run_in_the_slot:
  assumes "map_of (running_services w) name = Some p"
  shows "stop_selected_service pf (Some name) w = stop_service pf name w
       \<and> start_selected_service pf (Some name) w = start_service pf name w
       \<and> (stop_selected_service pf (Some name) w = None \<longleftrightarrow>
            snd (graceful_signal pf p) = None \<and> \<not> wait_timeout p 5
              \<and> snd (forceful_signal pf p) = None \<and> \<not> wait p)
       \<and> (\<forall>w'. stop_selected_service pf (Some name) w = Some w' \<longrightarrow>
            (\<exists>logs. events w' = events w @ fst (stop_phases pf p) @ logs
               \<and> (logs = [UpdateServiceStatus name False, LogStopped name]
                    \<or> (\<exists>e. logs = [LogFailedToStop name e]))))
       \<and> (snd (graceful_signal pf p) = None \<longrightarrow>
            (\<forall>w'. stop_selected_service pf (Some name) w = Some w' \<longrightarrow>
               WaitTimeout (pid p) 5 \<in> set (drop (length (events w)) (events w')))
            \<and> (\<forall>w'. \<not> is_closing w \<and> stop_all_services pf w = Some w' \<longrightarrow>
               WaitTimeout (pid p) 5 \<in> set (drop (length (events w)) (events w'))))
       \<and> (snd (graceful_signal pf p) = None \<and> \<not> wait_timeout p 5
              \<and> snd (forceful_signal pf p) = None \<longrightarrow>
            (\<forall>w'. stop_selected_service pf (Some name) w = Some w' \<longrightarrow>
               Wait (pid p) \<in> set (drop (length (events w)) (events w'))))"
proof -
  have eq: "stop_selected_service pf (Some name) w = stop_service pf name w"
    by (simp add: stop_selected_service_def)
  have blocked: "stop_service pf name w = None \<longleftrightarrow>
            snd (graceful_signal pf p) = None \<and> \<not> wait_timeout p 5
              \<and> snd (forceful_signal pf p) = None \<and> \<not> wait p"
    using stop_service_returns [OF assms] stop_phases_blocked by simp
  have tr: "\<forall>w'. stop_service pf name w = Some w' \<longrightarrow>
            (\<exists>logs. events w' = events w @ fst (stop_phases pf p) @ logs
               \<and> (logs = [UpdateServiceStatus name False, LogStopped name]
                    \<or> (\<exists>e. logs = [LogFailedToStop name e])))"
    using assms
    by (auto simp: stop_service_def emit_def split: prod.splits outcome.splits)
  have w5: "snd (graceful_signal pf p) = None \<longrightarrow>
            (\<forall>w'. stop_service pf name w = Some w' \<longrightarrow>
               WaitTimeout (pid p) 5 \<in> set (drop (length (events w)) (events w')))
            \<and> (\<forall>w'. \<not> is_closing w \<and> stop_all_services pf w = Some w' \<longrightarrow>
               WaitTimeout (pid p) 5 \<in> set (drop (length (events w)) (events w')))"
    using stop_service_waits [OF assms] stop_all_services_waits [OF assms] by blast
  have wu: "snd (graceful_signal pf p) = None \<and> \<not> wait_timeout p 5
              \<and> snd (forceful_signal pf p) = None \<longrightarrow>
            (\<forall>w'. stop_service pf name w = Some w' \<longrightarrow>
               Wait (pid p) \<in> set (drop (length (events w)) (events w')))"
  proof (intro impI allI)
    fix w'
    assume h: "snd (graceful_signal pf p) = None \<and> \<not> wait_timeout p 5
              \<and> snd (forceful_signal pf p) = None"
      and s: "stop_service pf name w = Some w'"
    from stop_service_result [OF assms s] obtain logs
      where l: "events w' = events w @ fst (stop_phases pf p) @ logs" by blast
    from h kill_then_unbounded_wait [of pf p] obtain pre f
      where "fst (stop_phases pf p) = pre @ [f, Wait (pid p)]" by blast
    with l show "Wait (pid p) \<in> set (drop (length (events w)) (events w'))" by simp
  qed
  from eq blocked tr w5 wu show ?thesis
    by (simp add: start_selected_service_def)
qed

theorem operations_run_in_the_slot_witness:
  "map_of (running_services (window Map.empty [(''api_service.py'', stubborn 4001)]))
       ''api_service.py'' = Some (stubborn 4001)
   \<and> snd (graceful_signal (posix spawn_stubborn) (stubborn 4001)) = None
   \<and> \<not> wait_timeout (stubborn 4001) 5
   \<and> snd (forceful_signal (posix spawn_stubborn) (stubborn 4001)) = None
   \<and> (\<exists>w'. stop_selected_service (posix spawn_stubborn) (Some ''api_service.py'')
               (window Map.empty [(''api_service.py'', stubborn 4001)]) = Some w'
            \<and> WaitTimeout 4001 5 \<in> set (events w') \<and> Wait 4001 \<in> set (events w'))"
proof -
  have reg: "map_of (running_services (window Map.empty [(''api_service.py'', stubborn 4001)]))
               ''api_service.py'' = Some (stubborn 4001)"
    by (simp add: window_def)
  have g: "snd (graceful_signal (posix spawn_stubborn) (stubborn 4001)) = None"
    and f: "snd (forceful_signal (posix spawn_stubborn) (stubborn 4001)) = None"
    and t: "\<not> wait_timeout (stubborn 4001) 5"
    by (simp_all add: graceful_signal_def forceful_signal_def signal_group_def posix_def
          stubborn_def)
  have ret: "stop_selected_service (posix spawn_stubborn) (Some ''api_service.py'')
               (window Map.empty [(''api_service.py'', stubborn 4001)]) \<noteq> None"
    by (simp add: stop_selected_service_def stop_service_def stubborn_phases window_def)
  have ev: "events (window Map.empty [(''api_service.py'', stubborn 4001)]) = []"
    and pd: "pid (stubborn 4001) = 4001"
    by (simp_all add: window_def stubborn_def)
  note all = operations_run_in_the_slot [OF reg, of "posix spawn_stubborn"]
  from all [THEN conjunct2, THEN conjunct2, THEN conjunct2, THEN conjunct2, THEN conjunct1] g
  have bounded: "\<forall>w'. stop_selected_service (posix spawn_stubborn) (Some ''api_service.py'')
                        (window Map.empty [(''api_service.py'', stubborn 4001)]) = Some w' \<longrightarrow>
                      WaitTimeout 4001 5 \<in> set (events w')"
    by (simp add: ev pd)
  from all [THEN conjunct2, THEN conjunct2, THEN conjunct2, THEN conjunct2, THEN conjunct2] g f t
  have unbounded: "\<forall>w'. stop_selected_service (posix spawn_stubborn) (Some ''api_service.py'')
                        (window Map.empty [(''api_service.py'', stubborn 4001)]) = Some w' \<longrightarrow>
                      Wait 4001 \<in> set (events w')"
    by (simp add: ev pd)
  from ret bounded unbounded
  have "\<exists>w'. stop_selected_service (posix spawn_stubborn) (Some ''api_service.py'')
               (window Map.empty [(''api_service.py'', stubborn 4001)]) = Some w'
            \<and> WaitTimeout 4001 5 \<in> set (events w') \<and> Wait 4001 \<in> set (events w')"
    by auto
  with reg g f t show ?thesis by blast
qed

text \<open>
  The stop button on a service that ignores the graceful request: both waits are made by
  the slot before it returns, and the outcome is logged from the same call.
\<close>

theorem stop_button_waits_in_the_slot:
  "stop_selected_service (posix spawn_stubborn) (Some ''api_service.py'')
     (window Map.empty [(''api_service.py'', stubborn 4001)])
   = Some \<lparr>config_data = Map.empty, running_services = [], is_closing = False,
           services_list = [], popen_count = 0,
           events = [Getpgid 4001, Killpg 4001 SIGTERM, WaitTimeout 4001 5,
                     Getpgid 4001, Killpg 4001 SIGKILL, Wait 4001,
                     UpdateServiceStatus ''api_service.py'' False,
                     LogStopped ''api_service.py'']\<rparr>"
  by (simp add: stop_selected_service_def stop_service_def stubborn_phases emit_def window_def)

section \<open>Interrupt and terminate signals\<close>

text \<open>Whatever the handlers were before \<^verbatim>\<open>main\<close>, \<^verbatim>\<open>SIGINT\<close> ends up with the system default.\<close>

lemma sigint_default: "deliver (main_signals h) SIGINT = Killed"
  by (simp add: deliver_def main_signals_def)

text \<open>
  C4 at \<^verbatim>\<open>SIGINT\<close>. The third \<^verbatim>\<open>signal.signal\<close> call of \<^verbatim>\<open>main\<close> (line 869) puts
  \<^verbatim>\<open>SIG_DFL\<close> back on \<^verbatim>\<open>SIGINT\<close>, where the first (line 865) had installed
  \<^verbatim>\<open>signal_handler\<close>. From then on \<^verbatim>\<open>SIGINT\<close> ends the control panel by the system
  default, with no Python code run: not \<^verbatim>\<open>signal_handler\<close>, so not
  \<^verbatim>\<open>cleanup_all_processes\<close>. \<^verbatim>\<open>SIGTERM\<close> keeps \<^verbatim>\<open>signal_handler\<close>, to be run by the
  interpreter. \<^verbatim>\<open>main\<close> itself ends with \<^verbatim>\<open>NameError\<close> when it constructs the splash screen.
\<close>

theorem main_leaves_sigint_default:
  "deliver (fst (main_startup python_handlers)) SIGINT = Killed
   \<and> deliver (fst (main_startup python_handlers)) SIGTERM = Pending signal_handler_fn
   \<and> snd (main_startup python_handlers) = Some NameError"
  by (simp add: deliver_def main_startup_def main_signals_def python_handlers_def
        SplashScreen_init_def ConfigLoader_init_def)

end
